theory Spec2Isabelle
  imports Complex_Main "HOL-Library.AList"
begin

section \<open>Data model (models.py)\<close>

text \<open>
  The enumerations of \<^verbatim>\<open>models.py\<close> as datatypes, in the order of declaration.
  Each of them is a Python \<^verbatim>\<open>str\<close> enumeration; the string value of a member is
  given by a function where the code reads it.
\<close>

datatype MetricType =
    CPU | MEMORY | BANDWIDTH_IN | BANDWIDTH_OUT | ERROR_RATE | DISCARD_RATE
  | LATENCY | JITTER | PACKET_LOSS | TEMPERATURE | POWER | FAN_SPEED | UPTIME
  | BGP_PREFIXES | OSPF_NEIGHBORS | CUSTOM

fun metric_type_value :: "MetricType \<Rightarrow> string" where
  "metric_type_value CPU = ''cpu''"
| "metric_type_value MEMORY = ''memory''"
| "metric_type_value BANDWIDTH_IN = ''bandwidth_in''"
| "metric_type_value BANDWIDTH_OUT = ''bandwidth_out''"
| "metric_type_value ERROR_RATE = ''error_rate''"
| "metric_type_value DISCARD_RATE = ''discard_rate''"
| "metric_type_value LATENCY = ''latency''"
| "metric_type_value JITTER = ''jitter''"
| "metric_type_value PACKET_LOSS = ''packet_loss''"
| "metric_type_value TEMPERATURE = ''temperature''"
| "metric_type_value POWER = ''power''"
| "metric_type_value FAN_SPEED = ''fan_speed''"
| "metric_type_value UPTIME = ''uptime''"
| "metric_type_value BGP_PREFIXES = ''bgp_prefixes''"
| "metric_type_value OSPF_NEIGHBORS = ''ospf_neighbors''"
| "metric_type_value CUSTOM = ''custom''"

datatype AlertSeverity = INFO | WARNING | CRITICAL | EMERGENCY

fun severity_value :: "AlertSeverity \<Rightarrow> string" where
  "severity_value INFO = ''info''"
| "severity_value WARNING = ''warning''"
| "severity_value CRITICAL = ''critical''"
| "severity_value EMERGENCY = ''emergency''"

datatype AlertState = ACTIVE | ACKNOWLEDGED | RESOLVED | SUPPRESSED

text \<open>
  A \<^verbatim>\<open>datetime\<close> is a count of microseconds, the resolution of the Python type,
  since \<^verbatim>\<open>datetime.min\<close>, the first instant of the year 1; the clock
  (\<^verbatim>\<open>datetime.utcnow()\<close>) is an argument \<open>now\<close> of every operation that reads it. A Python \<^verbatim>\<open>float\<close> is modelled by a real number: rounding errors, infinities
  and NaN are outside the model.
\<close>

type_synonym datetime = int

record Alert =
  alert_id :: string
  device_id :: string
  device_hostname :: string
  interface_name :: "string option"
  severity :: AlertSeverity
  state :: AlertState
  title :: string
  description :: string
  metric_type :: "MetricType option"
  metric_value :: "real option"
  threshold_value :: "real option"
  source :: string
  correlation_id :: "string option"
  created_at :: datetime
  acknowledged_at :: "datetime option"
  resolved_at :: "datetime option"
  acknowledged_by :: "string option"
  tags :: "(string \<times> string) list"

section \<open>Alert manager (monitor/alerting.py)\<close>

text \<open>
  A suppression rule is the dictionary built by \<^verbatim>\<open>add_suppression_rule\<close>: each of
  its first four entries is \<^verbatim>\<open>None\<close> or a value.
\<close>

record SuppressionRule =
  rule_device_id :: "string option"
  rule_metric_type :: "string option"
  rule_start_time :: "datetime option"
  rule_end_time :: "datetime option"
  rule_reason :: string

text \<open>
  \<^verbatim>\<open>self._alerts\<close> is a dictionary from alert identifiers to alerts. Python
  dictionaries iterate in insertion order and the deduplication loop takes the first
  match, so the dictionary is an association list: \<^const>\<open>map_of\<close> reads it and
  \<^const>\<open>AList.update\<close> assigns to a key (in place when the key is present, at the
  end otherwise). Alerts are passed and stored by value. This is the code for every
  argument of \<^verbatim>\<open>add_alert\<close> that is a new object, as its docstring ("Add a new
  alert") has it; an argument that is one of the stored objects behaves the same unless
  a suppression rule matches it while it, or a duplicate of it, is stored as active (the
  code then marks the stored object itself).
\<close>

text \<open>
  The attribute \<^verbatim>\<open>_notification_handlers\<close>, a list that no method reads or
  changes, is left out.
\<close>

record AlertManager =
  alerts :: "(string \<times> Alert) list"
  suppression_rules :: "SuppressionRule list"


text \<open>
  One iteration of the loop of \<^verbatim>\<open>_is_suppressed\<close>: each \<^verbatim>\<open>continue\<close> is a
  \<open>False\<close>. A datetime is always truthy; a string is truthy when it is not empty;
  \<^verbatim>\<open>alert.metric_type\<close> is truthy when it is not \<^verbatim>\<open>None\<close>.
\<close>

definition rule_matches :: "datetime \<Rightarrow> Alert \<Rightarrow> SuppressionRule \<Rightarrow> bool" where
  "rule_matches now alert rule =
     (if (case rule_start_time rule of Some s \<Rightarrow> now < s | None \<Rightarrow> False) then False
      else if (case rule_end_time rule of Some e \<Rightarrow> now > e | None \<Rightarrow> False) then False
      else if (case rule_device_id rule of
                 Some d \<Rightarrow> d \<noteq> [] \<and> d \<noteq> device_id alert | None \<Rightarrow> False) then False
      else if (case (rule_metric_type rule, metric_type alert) of
                 (Some t, Some mt) \<Rightarrow> t \<noteq> [] \<and> t \<noteq> metric_type_value mt
               | _ \<Rightarrow> False) then False
      else True)"

definition is_suppressed :: "datetime \<Rightarrow> SuppressionRule list \<Rightarrow> Alert \<Rightarrow> bool" where
  "is_suppressed now rules alert = list_ex (rule_matches now alert) rules"

text \<open>
  The key of \<^verbatim>\<open>max(existing.severity, alert.severity, key=...)\<close> is the position in
  the enumeration; Python's \<^verbatim>\<open>max\<close> returns the first of two equal maxima.
\<close>

fun severity_index :: "AlertSeverity \<Rightarrow> nat" where
  "severity_index INFO = 0"
| "severity_index WARNING = 1"
| "severity_index CRITICAL = 2"
| "severity_index EMERGENCY = 3"

definition severity_max :: "AlertSeverity \<Rightarrow> AlertSeverity \<Rightarrow> AlertSeverity" where
  "severity_max old new = (if severity_index new > severity_index old then new else old)"

definition is_duplicate :: "Alert \<Rightarrow> Alert \<Rightarrow> bool" where
  "is_duplicate alert existing \<longleftrightarrow>
     device_id existing = device_id alert
     \<and> metric_type existing = metric_type alert
     \<and> state existing = ACTIVE"

definition absorb :: "Alert \<Rightarrow> Alert \<Rightarrow> Alert" where
  "absorb alert existing =
     existing\<lparr>metric_value := metric_value alert,
              description := description alert,
              severity := severity_max (severity existing) (severity alert)\<rparr>"

text \<open>
  The loop over \<^verbatim>\<open>self._alerts.values()\<close>: the first duplicate is updated in place
  and returned; \<open>None\<close> when the loop ends without a \<^verbatim>\<open>return\<close>.
\<close>

fun dedup :: "Alert \<Rightarrow> (string \<times> Alert) list \<Rightarrow> (Alert \<times> (string \<times> Alert) list) option" where
  "dedup alert [] = None"
| "dedup alert ((k, existing) # rest) =
     (if is_duplicate alert existing
      then Some (absorb alert existing, (k, absorb alert existing) # rest)
      else (case dedup alert rest of
              None \<Rightarrow> None
            | Some (e, rest') \<Rightarrow> Some (e, (k, existing) # rest')))"

definition add_alert :: "datetime \<Rightarrow> Alert \<Rightarrow> AlertManager \<Rightarrow> Alert \<times> AlertManager" where
  "add_alert now alert0 m =
     (let alert = (if is_suppressed now (suppression_rules m) alert0
                   then alert0\<lparr>state := SUPPRESSED\<rparr> else alert0)
      in case dedup alert (alerts m) of
           Some (existing, alerts') \<Rightarrow> (existing, m\<lparr>alerts := alerts'\<rparr>)
         | None \<Rightarrow> (alert, m\<lparr>alerts := AList.update (alert_id alert) alert (alerts m)\<rparr>))"

text \<open>The list comprehension of \<^verbatim>\<open>add_alerts\<close> calls \<^verbatim>\<open>add_alert\<close> from left to right.\<close>

fun add_alerts :: "datetime \<Rightarrow> Alert list \<Rightarrow> AlertManager \<Rightarrow> Alert list \<times> AlertManager" where
  "add_alerts now [] m = ([], m)"
| "add_alerts now (a # rest) m =
     (case add_alert now a m of
        (r, m') \<Rightarrow> (case add_alerts now rest m' of (rs, m'') \<Rightarrow> (r # rs, m'')))"

definition acknowledge ::
  "datetime \<Rightarrow> string \<Rightarrow> string \<Rightarrow> AlertManager \<Rightarrow> Alert option \<times> AlertManager" where
  "acknowledge now aid who m =
     (case map_of (alerts m) aid of
        Some alert \<Rightarrow>
          if state alert = ACTIVE
          then (let alert' = alert\<lparr>state := ACKNOWLEDGED,
                                   acknowledged_at := Some now,
                                   acknowledged_by := Some who\<rparr>
                in (Some alert', m\<lparr>alerts := AList.update aid alert' (alerts m)\<rparr>))
          else (None, m)
      | None \<Rightarrow> (None, m))"

definition resolve :: "datetime \<Rightarrow> string \<Rightarrow> AlertManager \<Rightarrow> Alert option \<times> AlertManager" where
  "resolve now aid m =
     (case map_of (alerts m) aid of
        Some alert \<Rightarrow>
          if state alert = ACTIVE \<or> state alert = ACKNOWLEDGED
          then (let alert' = alert\<lparr>state := RESOLVED, resolved_at := Some now\<rparr>
                in (Some alert', m\<lparr>alerts := AList.update aid alert' (alerts m)\<rparr>))
          else (None, m)
      | None \<Rightarrow> (None, m))"

definition get_alert :: "string \<Rightarrow> AlertManager \<Rightarrow> Alert option" where
  "get_alert aid m = map_of (alerts m) aid"

definition add_suppression_rule ::
  "string option \<Rightarrow> string option \<Rightarrow> datetime option \<Rightarrow> datetime option \<Rightarrow> string
     \<Rightarrow> AlertManager \<Rightarrow> AlertManager" where
  "add_suppression_rule dev mt start_time end_time reason m =
     m\<lparr>suppression_rules := suppression_rules m @
         [\<lparr>rule_device_id = dev, rule_metric_type = mt, rule_start_time = start_time,
           rule_end_time = end_time, rule_reason = reason\<rparr>]\<rparr>"


text \<open>
  The alert of the test fixture \<^verbatim>\<open>sample_alert\<close> (tests/conftest.py), with the
  identifier, the severity and the metric value as arguments.
\<close>

definition sample_alert :: "string \<Rightarrow> AlertSeverity \<Rightarrow> real \<Rightarrow> Alert" where
  "sample_alert aid sev v =
     \<lparr>alert_id = aid, device_id = ''test-device-1'', device_hostname = ''test-router-1'',
      interface_name = None, severity = sev, state = ACTIVE,
      title = ''CPU threshold exceeded'', description = ''CPU high'',
      metric_type = Some CPU, metric_value = Some v, threshold_value = Some 70,
      source = ''threshold'', correlation_id = None, created_at = 0,
      acknowledged_at = None, resolved_at = None, acknowledged_by = None, tags = []\<rparr>"

text \<open>A manager that holds one active alert.\<close>

definition one_active :: AlertManager where
  "one_active = \<lparr>alerts = [(''a1'', sample_alert ''a1'' CRITICAL 90)], suppression_rules = []\<rparr>"



text \<open>
  An alert that has been resolved at time 7, a manager that holds only this alert, and
  the same manager with a suppression rule for the alert's device over the times 0 to
  100.
\<close>

definition resolved_sample :: Alert where
  "resolved_sample = (sample_alert ''a1'' WARNING 75)\<lparr>state := RESOLVED, resolved_at := Some 7\<rparr>"

definition one_resolved :: AlertManager where
  "one_resolved = \<lparr>alerts = [(''a1'', resolved_sample)], suppression_rules = []\<rparr>"

definition one_resolved_suppressing :: AlertManager where
  "one_resolved_suppressing =
     add_suppression_rule (Some ''test-device-1'') None (Some 0) (Some 100) ''Maintenance''
       one_resolved"

section \<open>Metrics and thresholds (models.py)\<close>

datatype CollectorType = SNMP | NETFLOW | SYSLOG | REST_API

text \<open>
  The fields of \<^verbatim>\<open>Metric\<close> carry the prefix \<open>m_\<close>, since an alert has fields of
  the same names. The field \<^verbatim>\<open>metadata\<close> (a dictionary of values of any type, which
  no function modelled here reads) is left out.
\<close>

record Metric =
  m_id :: string
  m_device_id :: string
  m_device_hostname :: string
  m_interface_name :: "string option"
  m_metric_type :: MetricType
  m_value :: real
  m_unit :: string
  m_timestamp :: datetime
  m_source :: CollectorType
  m_tags :: "(string \<times> string) list"

record MetricThreshold =
  th_metric_type :: MetricType
  warning_threshold :: real
  critical_threshold :: real
  emergency_threshold :: "real option"
  comparison :: string
  duration_seconds :: int
  device_filter :: "string option"
  interface_filter :: "string option"

section \<open>Health monitor (monitor/health.py)\<close>

definition MetricThreshold_new :: "MetricType \<Rightarrow> real \<Rightarrow> real \<Rightarrow> real option \<Rightarrow> MetricThreshold" where
  "MetricThreshold_new mt w c e =
     \<lparr>th_metric_type = mt, warning_threshold = w, critical_threshold = c,
      emergency_threshold = e, comparison = ''gt'', duration_seconds = 60,
      device_filter = None, interface_filter = None\<rparr>"

definition DEFAULT_THRESHOLDS :: "MetricThreshold list" where
  "DEFAULT_THRESHOLDS =
     [MetricThreshold_new CPU 70 85 (Some 95),
      MetricThreshold_new MEMORY 75 90 (Some 97),
      MetricThreshold_new ERROR_RATE 1 5 (Some 10),
      MetricThreshold_new TEMPERATURE 65 75 (Some 85),
      MetricThreshold_new PACKET_LOSS (1 / 2) 2 (Some 5)]"

text \<open>
  \<^verbatim>\<open>self._metric_history\<close> is a \<^verbatim>\<open>defaultdict(list)\<close>: a total function from keys
  to lists, empty where nothing was appended. \<^verbatim>\<open>self._thresholds\<close> is a dictionary
  that is only looked up by key: a map.
\<close>

record HealthMonitor =
  thresholds :: "MetricType \<rightharpoonup> MetricThreshold"
  metric_history :: "string \<Rightarrow> Metric list"
  hm_alerts :: "Alert list"
  max_history :: nat

text \<open>
  The dictionary comprehension of \<^verbatim>\<open>__init__\<close>: a later threshold of the list
  overrides an earlier one of the same metric type. An empty list is falsy, so it
  selects the defaults as \<^verbatim>\<open>None\<close> does.
\<close>

definition HealthMonitor_init :: "MetricThreshold list option \<Rightarrow> HealthMonitor" where
  "HealthMonitor_init ths =
     \<lparr>thresholds =
        map_of (rev (map (\<lambda>t. (th_metric_type t, t))
          (case ths of None \<Rightarrow> DEFAULT_THRESHOLDS | Some [] \<Rightarrow> DEFAULT_THRESHOLDS
           | Some (t # ts) \<Rightarrow> t # ts))),
      metric_history = (\<lambda>_. []),
      hm_alerts = [],
      max_history = 1000\<rparr>"

definition set_threshold :: "MetricThreshold \<Rightarrow> HealthMonitor \<Rightarrow> HealthMonitor" where
  "set_threshold t hm = hm\<lparr>thresholds := (thresholds hm)(th_metric_type t \<mapsto> t)\<rparr>"

text \<open>The key of a series: \<^verbatim>\<open>f"{metric.device_id}:{metric.metric_type.value}"\<close>.\<close>

definition series_key :: "string \<Rightarrow> MetricType \<Rightarrow> string" where
  "series_key dev mt = dev @ '':'' @ metric_type_value mt"

text \<open>
  The slice \<^verbatim>\<open>xs[-n:]\<close> for \<open>n \<ge> 0\<close>: the last \<open>n\<close> elements, and the whole list
  when \<open>n = 0\<close> (\<^verbatim>\<open>xs[-0:]\<close> is \<^verbatim>\<open>xs[0:]\<close>).
\<close>

definition last_n :: "nat \<Rightarrow> 'a list \<Rightarrow> 'a list" where
  "last_n n xs = (if n = 0 then xs else drop (length xs - n) xs)"

text \<open>
  The tiers of \<^verbatim>\<open>_check_threshold\<close>, in the order of its \<^verbatim>\<open>if\<close>/\<^verbatim>\<open>elif\<close> chain.
  The first test is \<^verbatim>\<open>threshold.emergency_threshold and value >= ...\<close>: the
  optional float is tested for truth, and both \<^verbatim>\<open>None\<close> and \<^verbatim>\<open>0.0\<close> are falsy.
\<close>

definition select_tier :: "MetricThreshold \<Rightarrow> real \<Rightarrow> (AlertSeverity \<times> real) option" where
  "select_tier threshold v =
     (if (case emergency_threshold threshold of
            None \<Rightarrow> False | Some e \<Rightarrow> e \<noteq> 0 \<and> v \<ge> e)
      then (case emergency_threshold threshold of
              None \<Rightarrow> None | Some e \<Rightarrow> Some (EMERGENCY, e))
      else if v \<ge> critical_threshold threshold
      then Some (CRITICAL, critical_threshold threshold)
      else if v \<ge> warning_threshold threshold
      then Some (WARNING, warning_threshold threshold)
      else None)"

text \<open>Python's \<^verbatim>\<open>str.upper\<close> on the ASCII names of the metric types.\<close>

definition upper_char :: "char \<Rightarrow> char" where
  "upper_char c =
     (let n = (of_char c :: nat) in if 97 \<le> n \<and> n \<le> 122 then char_of (n - 32) else c)"

definition upper :: "string \<Rightarrow> string" where
  "upper s = map upper_char s"

text \<open>
  \<^verbatim>\<open>_check_threshold\<close>. What the environment supplies is an argument: \<open>fstr\<close> is
  Python's formatting of a float in an f-string, \<open>uid\<close> the identifier that
  \<^verbatim>\<open>uuid4\<close> gives the new alert, \<open>now\<close> the clock. A threshold object and a
  severity are always truthy, so \<^verbatim>\<open>if not threshold\<close> tests for a missing key
  and \<^verbatim>\<open>if severity\<close> for a tier having been selected.
\<close>

definition check_threshold ::
  "(real \<Rightarrow> string) \<Rightarrow> string \<Rightarrow> datetime \<Rightarrow> (MetricType \<rightharpoonup> MetricThreshold) \<Rightarrow> Metric
     \<Rightarrow> Alert option" where
  "check_threshold fstr uid now ths metric =
     (case ths (m_metric_type metric) of
        None \<Rightarrow> None
      | Some threshold \<Rightarrow>
          (case select_tier threshold (m_value metric) of
             None \<Rightarrow> None
           | Some (sev, tv) \<Rightarrow>
               Some \<lparr>alert_id = uid,
                     device_id = m_device_id metric,
                     device_hostname = m_device_hostname metric,
                     interface_name = m_interface_name metric,
                     severity = sev,
                     state = ACTIVE,
                     title = upper (metric_type_value (m_metric_type metric))
                       @ '' threshold exceeded on ''
                       @ (if m_device_hostname metric \<noteq> [] then m_device_hostname metric
                          else m_device_id metric),
                     description = metric_type_value (m_metric_type metric) @ '' is ''
                       @ fstr (m_value metric) @ m_unit metric @ '', exceeding ''
                       @ severity_value sev @ '' threshold of '' @ fstr tv @ m_unit metric,
                     metric_type = Some (m_metric_type metric),
                     metric_value = Some (m_value metric),
                     threshold_value = Some tv,
                     source = ''health_monitor'',
                     correlation_id = None,
                     created_at = now,
                     acknowledged_at = None,
                     resolved_at = None,
                     acknowledged_by = None,
                     tags = []\<rparr>))"

text \<open>
  One iteration of the loop of \<^verbatim>\<open>process_metrics\<close>: append to the series, trim it
  to the last \<^verbatim>\<open>max_history\<close> samples when it is longer, check the threshold.
\<close>

definition process_metric ::
  "(real \<Rightarrow> string) \<Rightarrow> string \<Rightarrow> datetime \<Rightarrow> Metric \<Rightarrow> HealthMonitor
     \<Rightarrow> Alert option \<times> HealthMonitor" where
  "process_metric fstr uid now metric hm =
     (let key = series_key (m_device_id metric) (m_metric_type metric);
          appended = metric_history hm key @ [metric];
          series = (if length appended > max_history hm
                    then last_n (max_history hm) appended else appended);
          hm1 = hm\<lparr>metric_history := (metric_history hm)(key := series)\<rparr>
      in case check_threshold fstr uid now (thresholds hm1) metric of
           None \<Rightarrow> (None, hm1)
         | Some alert \<Rightarrow> (Some alert, hm1\<lparr>hm_alerts := hm_alerts hm1 @ [alert]\<rparr>))"

text \<open>
  \<^verbatim>\<open>process_metrics\<close>: the loop over the batch. \<open>uuid\<close> is the sequence of
  identifiers that \<^verbatim>\<open>uuid4\<close> supplies, read at the position \<open>i\<close> of the metric in the
  batch; the clock is read once for the call.
\<close>

fun process_metrics_from ::
  "(real \<Rightarrow> string) \<Rightarrow> (nat \<Rightarrow> string) \<Rightarrow> datetime \<Rightarrow> nat \<Rightarrow> Metric list \<Rightarrow> HealthMonitor
     \<Rightarrow> Alert list \<times> HealthMonitor" where
  "process_metrics_from fstr uuid now i [] hm = ([], hm)"
| "process_metrics_from fstr uuid now i (metric # rest) hm =
     (case process_metric fstr (uuid i) now metric hm of
        (a, hm1) \<Rightarrow>
          (case process_metrics_from fstr uuid now (Suc i) rest hm1 of
             (new_alerts, hm2) \<Rightarrow>
               ((case a of None \<Rightarrow> [] | Some alert \<Rightarrow> [alert]) @ new_alerts, hm2)))"

definition process_metrics ::
  "(real \<Rightarrow> string) \<Rightarrow> (nat \<Rightarrow> string) \<Rightarrow> datetime \<Rightarrow> Metric list \<Rightarrow> HealthMonitor
     \<Rightarrow> Alert list \<times> HealthMonitor" where
  "process_metrics fstr uuid now metrics hm = process_metrics_from fstr uuid now 0 metrics hm"

text \<open>A CPU metric of device \<^verbatim>\<open>d1\<close>, as the tests build them.\<close>

definition cpu_metric :: "real \<Rightarrow> Metric" where
  "cpu_metric v =
     \<lparr>m_id = ''m'', m_device_id = ''d1'', m_device_hostname = '''', m_interface_name = None,
      m_metric_type = CPU, m_value = v, m_unit = ''%'', m_timestamp = 0, m_source = SNMP,
      m_tags = []\<rparr>"

text \<open>
  Stand-ins for the environment in the examples: a float format that prints nothing of
  the number, and a sequence of pairwise different identifiers.
\<close>

definition fstr0 :: "real \<Rightarrow> string" where
  "fstr0 x = ''?''"

definition uuid0 :: "nat \<Rightarrow> string" where
  "uuid0 n = replicate (Suc n) (CHR ''u'')"

text \<open>
  A threshold with an emergency tier at zero, as for a signal level in dBm, and a metric
  of that type.
\<close>

definition signal_threshold :: MetricThreshold where
  "signal_threshold = MetricThreshold_new CUSTOM (-10) (-5) (Some 0)"

definition signal_metric :: "real \<Rightarrow> Metric" where
  "signal_metric v =
     \<lparr>m_id = ''m'', m_device_id = ''d1'', m_device_hostname = '''', m_interface_name = None,
      m_metric_type = CUSTOM, m_value = v, m_unit = ''dBm'', m_timestamp = 0,
      m_source = SNMP, m_tags = []\<rparr>"

text \<open>
  The tiers as the specification words them: emergency (when the threshold has one), then
  critical, then warning, each tested with \<open>\<ge>\<close>; the first satisfied tier decides.
\<close>

definition first_satisfied_tier :: "MetricThreshold \<Rightarrow> real \<Rightarrow> (AlertSeverity \<times> real) option" where
  "first_satisfied_tier threshold v =
     (case emergency_threshold threshold of
        Some e \<Rightarrow>
          if v \<ge> e then Some (EMERGENCY, e)
          else if v \<ge> critical_threshold threshold
          then Some (CRITICAL, critical_threshold threshold)
          else if v \<ge> warning_threshold threshold
          then Some (WARNING, warning_threshold threshold)
          else None
      | None \<Rightarrow>
          if v \<ge> critical_threshold threshold
          then Some (CRITICAL, critical_threshold threshold)
          else if v \<ge> warning_threshold threshold
          then Some (WARNING, warning_threshold threshold)
          else None)"


section \<open>Anomaly detector (anomaly/detector.py)\<close>

text \<open>
  Exceptions are values. The detector can raise only where a dictionary is indexed by a
  key (\<^verbatim>\<open>self._ewma_var[key]\<close>) or \<^verbatim>\<open>max\<close> is given an empty sequence; the theorems
  below show that the calls they are about return. \<^verbatim>\<open>OverflowError\<close> is raised by
  datetime arithmetic in the forecast agent.
\<close>

datatype py_error = KeyError | ValueError | OverflowError

record MaintenanceWindow =
  mw_name :: string
  mw_start :: datetime
  mw_end :: datetime
  mw_device_ids :: "string list option"

text \<open>
  \<^verbatim>\<open>is_active\<close> is called with the clock value that \<^verbatim>\<open>_in_maintenance\<close> has read (a
  datetime is truthy, so \<^verbatim>\<open>now or datetime.utcnow()\<close> is \<^verbatim>\<open>now\<close>).
\<close>

definition is_active :: "datetime \<Rightarrow> MaintenanceWindow \<Rightarrow> bool" where
  "is_active now w \<longleftrightarrow> mw_start w \<le> now \<and> now \<le> mw_end w"

definition covers_device :: "string \<Rightarrow> MaintenanceWindow \<Rightarrow> bool" where
  "covers_device dev w \<longleftrightarrow> (case mw_device_ids w of None \<Rightarrow> True | Some ds \<Rightarrow> dev \<in> set ds)"

record AnomalyResult =
  ar_is_anomaly :: bool
  ar_score :: real
  ar_method :: string
  ar_metric :: Metric
  ar_details :: string
  ar_timestamp :: datetime

text \<open>
  The detector's attributes. \<^verbatim>\<open>_history\<close> is a \<^verbatim>\<open>defaultdict(list)\<close>, a total
  function; \<^verbatim>\<open>_ewma\<close> and \<^verbatim>\<open>_ewma_var\<close> are dictionaries, tested for a key and
  indexed: maps.
\<close>

record AnomalyDetector =
  z_score_threshold :: real
  iqr_multiplier :: real
  ewma_alpha :: real
  min_samples :: int
  history :: "string \<Rightarrow> real list"
  ewma :: "string \<rightharpoonup> real"
  ewma_var :: "string \<rightharpoonup> real"
  maintenance_windows :: "MaintenanceWindow list"
  anomalies :: "AnomalyResult list"
  ad_max_history :: nat

definition AnomalyDetector_init :: "real \<Rightarrow> real \<Rightarrow> real \<Rightarrow> int \<Rightarrow> AnomalyDetector" where
  "AnomalyDetector_init z k alpha n =
     \<lparr>z_score_threshold = z, iqr_multiplier = k, ewma_alpha = alpha, min_samples = n,
      history = (\<lambda>_. []), ewma = Map.empty, ewma_var = Map.empty,
      maintenance_windows = [], anomalies = [], ad_max_history = 2000\<rparr>"

text \<open>The detector of the tests: \<^verbatim>\<open>AnomalyDetector()\<close> with the default arguments.\<close>

definition AnomalyDetector_default :: AnomalyDetector where
  "AnomalyDetector_default = AnomalyDetector_init 3 (3 / 2) (3 / 10) 10"

definition add_maintenance_window :: "MaintenanceWindow \<Rightarrow> AnomalyDetector \<Rightarrow> AnomalyDetector" where
  "add_maintenance_window w d = d\<lparr>maintenance_windows := maintenance_windows d @ [w]\<rparr>"

definition in_maintenance :: "datetime \<Rightarrow> string \<Rightarrow> AnomalyDetector \<Rightarrow> bool" where
  "in_maintenance now dev d =
     list_ex (\<lambda>w. is_active now w \<and> covers_device dev w) (maintenance_windows d)"

text \<open>
  \<^verbatim>\<open>statistics.mean\<close> and \<^verbatim>\<open>statistics.stdev\<close> (the sample standard deviation);
  the code calls the first on a list that holds at least the new sample and the second
  on a list of at least two.
\<close>

definition mean :: "real list \<Rightarrow> real" where
  "mean xs = sum_list xs / real (length xs)"

definition stdev :: "real list \<Rightarrow> real" where
  "stdev xs = sqrt (sum_list (map (\<lambda>x. (x - mean xs)\<^sup>2) xs) / real (length xs - 1))"

text \<open>
  The three detectors. \<open>fstr\<close> and \<open>f2\<close> are Python's formatting of a float in an
  f-string, plain and with \<^verbatim>\<open>:.2f\<close>; \<open>now\<close> is the clock, read once for a call of
  \<^verbatim>\<open>detect\<close> in the model.
\<close>

definition z_score_detect ::
  "(real \<Rightarrow> string) \<Rightarrow> (real \<Rightarrow> string) \<Rightarrow> datetime \<Rightarrow> AnomalyDetector \<Rightarrow> Metric \<Rightarrow> real list
     \<Rightarrow> AnomalyResult option" where
  "z_score_detect fstr f2 now d metric hist =
     (let mu = mean hist;
          std = (if length hist > 1 then stdev hist else 0)
      in if std = 0 then None
         else (let z_score = (m_value metric - mu) / std
               in if \<bar>z_score\<bar> > z_score_threshold d
                  then Some \<lparr>ar_is_anomaly = True, ar_score = \<bar>z_score\<bar>,
                             ar_method = ''z_score'', ar_metric = metric,
                             ar_details = ''Z-score '' @ f2 z_score @ '' exceeds threshold ''
                               @ fstr (z_score_threshold d) @ '' (mean='' @ f2 mu
                               @ '', std='' @ f2 std @ '')'',
                             ar_timestamp = now\<rparr>
                  else None))"

definition iqr_detect ::
  "(real \<Rightarrow> string) \<Rightarrow> datetime \<Rightarrow> AnomalyDetector \<Rightarrow> Metric \<Rightarrow> real list
     \<Rightarrow> AnomalyResult option" where
  "iqr_detect f2 now d metric hist =
     (let sorted_vals = sort hist;
          n = length sorted_vals;
          q1 = sorted_vals ! (n div 4);
          q3 = sorted_vals ! (3 * n div 4);
          iqr = q3 - q1;
          lower = q1 - iqr_multiplier d * iqr;
          upper = q3 + iqr_multiplier d * iqr
      in if m_value metric < lower \<or> m_value metric > upper
         then Some \<lparr>ar_is_anomaly = True,
                    ar_score = max \<bar>m_value metric - lower\<bar> \<bar>m_value metric - upper\<bar>
                                 / (if iqr > 0 then iqr else 1),
                    ar_method = ''iqr'', ar_metric = metric,
                    ar_details = ''Value '' @ f2 (m_value metric) @ '' outside IQR bounds [''
                      @ f2 lower @ '', '' @ f2 upper @ '']'',
                    ar_timestamp = now\<rparr>
         else None)"

definition ewma_detect ::
  "(real \<Rightarrow> string) \<Rightarrow> datetime \<Rightarrow> Metric \<Rightarrow> string \<Rightarrow> AnomalyDetector
     \<Rightarrow> py_error + (AnomalyResult option \<times> AnomalyDetector)" where
  "ewma_detect f2 now metric key d =
     (let alpha = ewma_alpha d
      in case ewma d key of
           None \<Rightarrow>
             Inr (None, d\<lparr>ewma := (ewma d)(key \<mapsto> m_value metric),
                          ewma_var := (ewma_var d)(key \<mapsto> 0)\<rparr>)
         | Some prev_ewma \<Rightarrow>
             (case ewma_var d key of
                None \<Rightarrow> Inl KeyError
              | Some prev_var \<Rightarrow>
                  (let new_ewma = alpha * m_value metric + (1 - alpha) * prev_ewma;
                       diff = m_value metric - prev_ewma;
                       var = alpha * diff\<^sup>2 + (1 - alpha) * prev_var;
                       d1 = d\<lparr>ewma := (ewma d)(key \<mapsto> new_ewma),
                              ewma_var := (ewma_var d)(key \<mapsto> var)\<rparr>;
                       std = (if var > 0 then sqrt var else 0)
                   in if std = 0 then Inr (None, d1)
                      else (let z = \<bar>diff\<bar> / std
                            in if z > z_score_threshold d
                               then Inr (Some \<lparr>ar_is_anomaly = True, ar_score = z,
                                               ar_method = ''ewma'', ar_metric = metric,
                                               ar_details = ''EWMA deviation '' @ f2 z
                                                 @ '' exceeds threshold (ewma='' @ f2 new_ewma
                                                 @ '', std='' @ f2 std @ '')'',
                                               ar_timestamp = now\<rparr>, d1)
                               else Inr (None, d1)))))"

definition opt_list :: "'a option \<Rightarrow> 'a list" where
  "opt_list r = (case r of None \<Rightarrow> [] | Some x \<Rightarrow> [x])"

text \<open>
  \<^verbatim>\<open>detect\<close>. \<^verbatim>\<open>methods or [...]\<close> takes the default list for \<^verbatim>\<open>None\<close> and for the
  empty list. The sample is appended and the series trimmed before the maintenance
  windows are looked at.
\<close>

definition detect ::
  "(real \<Rightarrow> string) \<Rightarrow> (real \<Rightarrow> string) \<Rightarrow> datetime \<Rightarrow> Metric \<Rightarrow> string list option
     \<Rightarrow> AnomalyDetector \<Rightarrow> py_error + (AnomalyResult list \<times> AnomalyDetector)" where
  "detect fstr f2 now metric methods d =
     (let ms = (case methods of None \<Rightarrow> [''z_score'', ''iqr'', ''ewma'']
                | Some [] \<Rightarrow> [''z_score'', ''iqr'', ''ewma'']
                | Some (x # xs) \<Rightarrow> x # xs);
          key = series_key (m_device_id metric) (m_metric_type metric);
          appended = history d key @ [m_value metric];
          series = (if length appended > ad_max_history d
                    then last_n (ad_max_history d) appended else appended);
          d1 = d\<lparr>history := (history d)(key := series)\<rparr>
      in if in_maintenance now (m_device_id metric) d1 then Inr ([], d1)
         else if int (length series) < min_samples d1 then Inr ([], d1)
         else
           (let r1 = (if ''z_score'' \<in> set ms
                      then opt_list (z_score_detect fstr f2 now d1 metric series) else []);
                r2 = (if ''iqr'' \<in> set ms
                      then opt_list (iqr_detect f2 now d1 metric series) else [])
            in case (if ''ewma'' \<in> set ms then ewma_detect f2 now metric key d1
                     else Inr (None, d1)) of
                 Inl e \<Rightarrow> Inl e
               | Inr (r3, d2) \<Rightarrow>
                   Inr (r1 @ r2 @ opt_list r3,
                        d2\<lparr>anomalies := anomalies d2 @ (r1 @ r2 @ opt_list r3)\<rparr>)))"

text \<open>\<^verbatim>\<open>detect_batch\<close>: \<^verbatim>\<open>detect\<close> with the default methods on each metric in turn.\<close>

fun detect_batch ::
  "(real \<Rightarrow> string) \<Rightarrow> (real \<Rightarrow> string) \<Rightarrow> datetime \<Rightarrow> Metric list \<Rightarrow> AnomalyDetector
     \<Rightarrow> py_error + (AnomalyResult list \<times> AnomalyDetector)" where
  "detect_batch fstr f2 now [] d = Inr ([], d)"
| "detect_batch fstr f2 now (metric # rest) d =
     (case detect fstr f2 now metric None d of
        Inl e \<Rightarrow> Inl e
      | Inr (results, d1) \<Rightarrow>
          (case detect_batch fstr f2 now rest d1 of
             Inl e \<Rightarrow> Inl e
           | Inr (all_results, d2) \<Rightarrow> Inr (results @ all_results, d2)))"

text \<open>
  The detector of the test \<^verbatim>\<open>test_maintenance_window\<close>: one window for device
  \<^verbatim>\<open>d1\<close> from an hour before to an hour after the time \<open>now\<close> (in microseconds).
\<close>

definition hour :: int where
  "hour = 3600 * 1000000"

definition maintained_detector :: "datetime \<Rightarrow> AnomalyDetector" where
  "maintained_detector now =
     add_maintenance_window
       \<lparr>mw_name = ''test'', mw_start = now - hour, mw_end = now + hour,
        mw_device_ids = Some [''d1'']\<rparr>
       AnomalyDetector_default"












section \<open>Configuration manager (config/manager.py)\<close>

text \<open>
  The fields of \<^verbatim>\<open>ConfigSnapshot\<close>; its \<^verbatim>\<open>id\<close>, \<^verbatim>\<open>device_id\<close>,
  \<^verbatim>\<open>device_hostname\<close>, \<^verbatim>\<open>source\<close> and \<^verbatim>\<open>tags\<close> are renamed, since other records
  have fields of these names.
\<close>

record ConfigSnapshot =
  snapshot_id :: string
  cs_device_id :: string
  cs_device_hostname :: string
  config_text :: string
  config_hash :: string
  captured_at :: datetime
  cs_source :: string
  cs_tags :: "(string \<times> string) list"

text \<open>
  \<^verbatim>\<open>self._snapshots\<close> is a \<^verbatim>\<open>defaultdict(list)\<close>, read with \<^verbatim>\<open>.get(device_id, [])\<close>
  and appended to: a total function from device identifiers to lists.
\<close>

record ConfigManager =
  snapshots :: "string \<Rightarrow> ConfigSnapshot list"
  golden_configs :: "string \<rightharpoonup> string"

definition ConfigManager_init :: ConfigManager where
  "ConfigManager_init = \<lparr>snapshots = (\<lambda>_. []), golden_configs = Map.empty\<rparr>"

text \<open>
  \<^verbatim>\<open>backup_config\<close>. The library function
  \<^verbatim>\<open>hashlib.sha256(text.encode()).hexdigest()\<close> is the argument \<open>sha256\<close>; \<open>uid\<close> is
  the identifier that \<^verbatim>\<open>uuid4\<close> gives a new snapshot and \<open>now\<close> the clock. The
  arguments \<^verbatim>\<open>source\<close> and \<^verbatim>\<open>hostname\<close> are passed in full (their defaults are
  \<^verbatim>\<open>"manual"\<close> and \<^verbatim>\<open>""\<close>).
\<close>

definition backup_config ::
  "(string \<Rightarrow> string) \<Rightarrow> string \<Rightarrow> datetime \<Rightarrow> string \<Rightarrow> string \<Rightarrow> string \<Rightarrow> string
     \<Rightarrow> ConfigManager \<Rightarrow> ConfigSnapshot \<times> ConfigManager" where
  "backup_config sha256 uid now dev ctext src hostname cm =
     (let h = sha256 ctext;
          existing = snapshots cm dev
      in if existing \<noteq> [] \<and> config_hash (last existing) = h
         then (last existing, cm)
         else (let snapshot =
                     \<lparr>snapshot_id = uid,
                      cs_device_id = dev,
                      cs_device_hostname = (if hostname \<noteq> [] then hostname else dev),
                      config_text = ctext,
                      config_hash = h,
                      captured_at = now,
                      cs_source = src,
                      cs_tags = []\<rparr>
               in (snapshot, cm\<lparr>snapshots := (snapshots cm)(dev := existing @ [snapshot])\<rparr>)))"

definition get_latest :: "string \<Rightarrow> ConfigManager \<Rightarrow> ConfigSnapshot option" where
  "get_latest dev cm =
     (if snapshots cm dev \<noteq> [] then Some (last (snapshots cm dev)) else None)"

text \<open>A stand-in for SHA-256 in the examples: the text itself.\<close>

definition hash0 :: "string \<Rightarrow> string" where
  "hash0 t = t"

text \<open>
  The store after a backup of the text \<^verbatim>\<open>hostname r1\<close> and then of the text
  \<^verbatim>\<open>hostname r2\<close> for device \<^verbatim>\<open>d1\<close>.
\<close>

definition first_backup :: "ConfigSnapshot \<times> ConfigManager" where
  "first_backup =
     backup_config hash0 ''s1'' 1 ''d1'' ''hostname r1'' ''manual'' '''' ConfigManager_init"

definition after_change :: ConfigManager where
  "after_change =
     snd (backup_config hash0 ''s2'' 2 ''d1'' ''hostname r2'' ''manual'' '''' (snd first_backup))"

section \<open>Topology (discover/topology.py)\<close>

record Neighbor =
  local_device_id :: string
  local_interface :: string
  remote_device_id :: string
  remote_interface :: string
  remote_hostname :: string
  remote_ip :: "string option"
  protocol :: string
  discovered_at :: datetime

text \<open>
  The attributes of \<^verbatim>\<open>TopologyDiscovery\<close> that \<^verbatim>\<open>add_neighbor\<close> and
  \<^verbatim>\<open>get_blast_radius\<close> touch: the list of neighbor relations and the adjacency, a
  \<^verbatim>\<open>defaultdict(set)\<close> read with \<^verbatim>\<open>.get(dev, set())\<close>, so a total function from
  device identifiers to sets. (The device dictionary and the link list belong to other
  methods.)
\<close>

record TopologyDiscovery =
  neighbors :: "Neighbor list"
  adjacency :: "string \<Rightarrow> string set"

definition TopologyDiscovery_init :: TopologyDiscovery where
  "TopologyDiscovery_init = \<lparr>neighbors = [], adjacency = (\<lambda>_. {})\<rparr>"

text \<open>The two \<^verbatim>\<open>add\<close> calls of \<^verbatim>\<open>add_neighbor\<close> run one after the other.\<close>

definition add_neighbor :: "Neighbor \<Rightarrow> TopologyDiscovery \<Rightarrow> TopologyDiscovery" where
  "add_neighbor n t =
     (let adj1 = (adjacency t)(local_device_id n :=
                    insert (remote_device_id n) (adjacency t (local_device_id n)));
          adj2 = adj1(remote_device_id n :=
                    insert (local_device_id n) (adj1 (remote_device_id n)))
      in t\<lparr>neighbors := neighbors t @ [n], adjacency := adj2\<rparr>)"

definition get_neighbors :: "string \<Rightarrow> TopologyDiscovery \<Rightarrow> string set" where
  "get_neighbors dev t = adjacency t dev"

text \<open>
  The loop of \<^verbatim>\<open>get_blast_radius\<close>, with the number of rounds left. One round
  visits the neighbors of the current layer: a neighbor that is neither in
  \<^verbatim>\<open>affected\<close> nor the device itself enters both \<^verbatim>\<open>next_layer\<close> and
  \<^verbatim>\<open>affected\<close>. A neighbor met a second time in the round is in \<^verbatim>\<open>affected\<close>
  already and in \<^verbatim>\<open>next_layer\<close> too, so the next layer is the set of the neighbors
  that were outside \<^verbatim>\<open>affected\<close> when the round began, whatever the order of the visit.
\<close>

fun blast_layers ::
  "(string \<Rightarrow> string set) \<Rightarrow> string \<Rightarrow> nat \<Rightarrow> string set \<Rightarrow> string set \<Rightarrow> string set" where
  "blast_layers adj dev 0 affected current_layer = affected"
| "blast_layers adj dev (Suc n) affected current_layer =
     (let next_layer = (\<Union>d \<in> current_layer. adj d) - affected - {dev}
      in blast_layers adj dev n (affected \<union> next_layer) next_layer)"

text \<open>\<^verbatim>\<open>range(max_hops)\<close> is empty for a negative \<^verbatim>\<open>max_hops\<close>.\<close>

definition get_blast_radius :: "string \<Rightarrow> int \<Rightarrow> TopologyDiscovery \<Rightarrow> string set" where
  "get_blast_radius dev max_hops t = blast_layers (adjacency t) dev (nat max_hops) {} {dev}"

text \<open>
  The specification's words, for comparison: \<open>hops adj src n v\<close> says that \<open>v\<close> is
  reached from \<open>src\<close> by \<open>n\<close> steps along the adjacency, and \<open>within_hops adj src k\<close>
  is the set of the devices reachable within \<open>k\<close> hops.
\<close>

inductive hops :: "(string \<Rightarrow> string set) \<Rightarrow> string \<Rightarrow> nat \<Rightarrow> string \<Rightarrow> bool"
  for adj :: "string \<Rightarrow> string set" and src :: string where
  start: "hops adj src 0 src"
| step: "hops adj src n u \<Longrightarrow> v \<in> adj u \<Longrightarrow> hops adj src (Suc n) v"

definition within_hops :: "(string \<Rightarrow> string set) \<Rightarrow> string \<Rightarrow> nat \<Rightarrow> string set" where
  "within_hops adj src k = {v. \<exists>n \<le> k. hops adj src n v}"

text \<open>Neighbor relations for the examples, and two small topologies.\<close>

definition link :: "string \<Rightarrow> string \<Rightarrow> Neighbor" where
  "link a b =
     \<lparr>local_device_id = a, local_interface = ''Gi0/0'', remote_device_id = b,
      remote_interface = ''Et1'', remote_hostname = '''', remote_ip = None,
      protocol = ''lldp'', discovered_at = 0\<rparr>"

definition star_topology :: TopologyDiscovery where
  "star_topology =
     add_neighbor (link ''core'' ''dist2'')
       (add_neighbor (link ''core'' ''dist1'') TopologyDiscovery_init)"

definition loop_topology :: TopologyDiscovery where
  "loop_topology = add_neighbor (link ''core'' ''core'') TopologyDiscovery_init"

section \<open>Forecast agent (agents/forecast_agent.py)\<close>

text \<open>
  Python's \<^verbatim>\<open>round(x, n)\<close> rounds to \<open>n\<close> decimals, a tie going to the even
  neighbour. On real numbers this is exact decimal rounding; a float is rounded from
  its binary value, which the model does not follow.
\<close>

definition round_half_even :: "real \<Rightarrow> int" where
  "round_half_even x =
     (let f = \<lfloor>x\<rfloor>; r = x - real_of_int f
      in if r < 1 / 2 then f else if r > 1 / 2 then f + 1 else if even f then f else f + 1)"

definition py_round :: "real \<Rightarrow> nat \<Rightarrow> real" where
  "py_round x n = real_of_int (round_half_even (x * 10 ^ n)) / 10 ^ n"

text \<open>
  \<^verbatim>\<open>datetime.max\<close> is the last microsecond of the year 9999, whose last day is day
  3652059 of the calendar. Adding a timedelta beyond it raises \<^verbatim>\<open>OverflowError\<close>, as
  does building a timedelta of more days than a datetime can hold.
\<close>

definition datetime_max :: datetime where
  "datetime_max = 3652059 * 86400000000 - 1"

text \<open>
  The dictionary that \<^verbatim>\<open>predict_threshold_breach\<close> returns, one constructor for
  each value of its key \<^verbatim>\<open>prediction\<close>, with the other entries as fields.
\<close>

datatype Forecast =
    InsufficientData (fc_message: string)
  | NoBreach (nb_slope: real) (nb_current_value: real) (nb_threshold: real)
      (nb_trend: string) (fc_message: string)
  | BreachPredicted (bp_current_value: real) (bp_threshold: real)
      (bp_slope_per_interval: real) (bp_estimated_breach_time: datetime)
      (bp_time_to_breach_hours: real) (bp_confidence: real) (fc_message: string)
  | Stable (fc_message: string)

text \<open>
  \<^verbatim>\<open>_linear_regression\<close>; \<^verbatim>\<open>zip\<close> stops at the shorter list, and \<open>n\<close> is the length
  of \<open>x\<close>.
\<close>

definition linear_regression :: "real list \<Rightarrow> real list \<Rightarrow> real \<times> real" where
  "linear_regression x y =
     (let n = length x
      in if n = 0 then (0, 0)
         else (let sum_x = sum_list x;
                   sum_y = sum_list y;
                   sum_xy = sum_list (map (\<lambda>(xi, yi). xi * yi) (zip x y));
                   sum_x2 = sum_list (map (\<lambda>xi. xi\<^sup>2) x);
                   denom = real n * sum_x2 - sum_x\<^sup>2
               in if denom = 0 then (0, sum_y / real n)
                  else (let slope = (real n * sum_xy - sum_x * sum_y) / denom;
                            intercept = (sum_y - slope * sum_x) / real n
                        in (slope, intercept))))"

definition calculate_confidence :: "real list \<Rightarrow> real list \<Rightarrow> real \<Rightarrow> real \<Rightarrow> real" where
  "calculate_confidence x y slope intercept =
     (let y_mean = mean y;
          ss_tot = sum_list (map (\<lambda>yi. (yi - y_mean)\<^sup>2) y);
          ss_res = sum_list (map (\<lambda>(xi, yi). (yi - (slope * xi + intercept))\<^sup>2) (zip x y))
      in if ss_tot = 0 then 1
         else (let r_squared = 1 - ss_res / ss_tot in py_round (max 0 r_squared) 3))"

text \<open>
  \<^verbatim>\<open>predict_threshold_breach\<close>. \<open>fstr\<close> formats a float in the messages and \<open>now\<close>
  is the clock. \<^verbatim>\<open>timedelta(seconds=s)\<close> rounds \<open>s\<close> to a whole number of
  microseconds. The last \<^verbatim>\<open>return\<close> of the source stands after the two tests
  \<^verbatim>\<open>slope <= 0\<close> and \<^verbatim>\<open>slope > 0\<close>.
\<close>

definition predict_threshold_breach ::
  "(real \<Rightarrow> string) \<Rightarrow> datetime \<Rightarrow> real list \<Rightarrow> real \<Rightarrow> int \<Rightarrow> py_error + Forecast" where
  "predict_threshold_breach fstr now vals threshold interval_seconds =
     (if length vals < 3
      then Inr (InsufficientData ''Need at least 3 data points for prediction'')
      else
        (let n = length vals;
             x = map real [0..<n]
         in case linear_regression x vals of
              (slope, intercept) \<Rightarrow>
                if slope \<le> 0
                then Inr (NoBreach (py_round slope 6) (py_round (last vals) 2) threshold
                            (if slope < 0 then ''decreasing'' else ''stable'')
                            (''Metric is '' @ (if slope < 0 then ''decreasing'' else ''stable'')
                               @ '', no breach predicted''))
                else if slope > 0
                then (let steps_to_breach = (threshold - last vals) / slope;
                          seconds_to_breach = steps_to_breach * real_of_int interval_seconds;
                          delta = round_half_even (max 0 seconds_to_breach * 1000000)
                      in if now + delta > datetime_max then Inl OverflowError
                         else Inr (BreachPredicted (py_round (last vals) 2) threshold
                                     (py_round slope 6) (now + delta)
                                     (py_round (seconds_to_breach / 3600) 1)
                                     (calculate_confidence x vals slope intercept)
                                     (''Threshold of '' @ fstr threshold
                                        @ '' predicted to be reached in ''
                                        @ fstr (py_round (seconds_to_breach / 3600) 1)
                                        @ '' hours'')))
                else Inr (Stable ''No breach predicted'')))"

text \<open>
  The claimed time to breach, for comparison: \<open>(threshold - latest) / m\<close> intervals,
  clipped at zero, in hours at \<open>interval_seconds\<close> per interval.
\<close>

definition clipped_hours_to_breach :: "real \<Rightarrow> real \<Rightarrow> real \<Rightarrow> int \<Rightarrow> real" where
  "clipped_hours_to_breach threshold latest m interval_seconds =
     max 0 ((threshold - latest) / m) * real_of_int interval_seconds / 3600"

text \<open>A time of the year 2026 for the examples, in microseconds.\<close>

definition some_now :: datetime where
  "some_now = 739000 * 86400000000"

section \<open>Properties of the alert manager\<close>




lemma is_duplicate_suppress [simp]:
  "is_duplicate (a\<lparr>state := s\<rparr>) e = is_duplicate a e"
  by (simp add: is_duplicate_def)

lemma absorb_suppress [simp]:
  "absorb (a\<lparr>state := s\<rparr>) e = absorb a e"
  by (simp add: absorb_def)





lemma dedup_map_of_inactive:
  "dedup a xs = Some (r, xs') \<Longrightarrow> map_of xs k = Some x \<Longrightarrow> state x \<noteq> ACTIVE
     \<Longrightarrow> map_of xs' k = Some x"
proof (induction xs arbitrary: r xs')
  case Nil
  then show ?case by simp
next
  case (Cons p xs)
  obtain k0 e where p: "p = (k0, e)" by (cases p)
  show ?case
  proof (cases "is_duplicate a e")
    case True
    then have "state e = ACTIVE" by (simp add: is_duplicate_def)
    with Cons.prems p True show ?thesis by (auto split: if_splits)
  next
    case False
    with Cons.prems p obtain rest' where d: "dedup a xs = Some (r, rest')"
      and xs': "xs' = (k0, e) # rest'"
      by (auto split: option.splits)
    show ?thesis
    proof (cases "k0 = k")
      case True
      with Cons.prems p xs' show ?thesis by simp
    next
      case False
      with Cons.prems p have "map_of xs k = Some x" by simp
      from Cons.IH[OF d this Cons.prems(3)] False xs' show ?thesis by simp
    qed
  qed
qed



lemma acknowledge_succeeds_iff:
  "fst (acknowledge now aid who m) \<noteq> None
     \<longleftrightarrow> (\<exists>a. map_of (alerts m) aid = Some a \<and> state a = ACTIVE)"
  by (auto simp: acknowledge_def Let_def split: option.splits)

lemma resolve_succeeds_iff:
  "fst (resolve now aid m) \<noteq> None
     \<longleftrightarrow> (\<exists>a. map_of (alerts m) aid = Some a \<and> (state a = ACTIVE \<or> state a = ACKNOWLEDGED))"
  by (auto simp: resolve_def Let_def split: option.splits)

lemma acknowledge_keeps_resolved:
  "get_alert k m = Some x \<Longrightarrow> state x = RESOLVED
     \<Longrightarrow> get_alert k (snd (acknowledge now aid who m)) = Some x"
  by (auto simp: acknowledge_def get_alert_def Let_def update_conv' split: option.splits)

lemma resolve_keeps_resolved:
  "get_alert k m = Some x \<Longrightarrow> state x = RESOLVED
     \<Longrightarrow> get_alert k (snd (resolve now aid m)) = Some x"
  by (auto simp: resolve_def get_alert_def Let_def update_conv' split: option.splits)

lemma add_alert_keeps_inactive:
  assumes "get_alert k m = Some x" "state x \<noteq> ACTIVE" "alert_id b \<noteq> k"
  shows "get_alert k (snd (add_alert now b m)) = Some x"
proof -
  define b' where "b' = (if is_suppressed now (suppression_rules m) b
                      then b\<lparr>state := SUPPRESSED\<rparr> else b)"
  have id: "alert_id b' = alert_id b" by (simp add: b'_def)
  show ?thesis
  proof (cases "dedup b' (alerts m)")
    case None
    then show ?thesis
      using assms id unfolding add_alert_def b'_def[symmetric] Let_def
      by (simp add: get_alert_def update_conv')
  next
    case (Some p)
    obtain r xs' where p: "p = (r, xs')" by (cases p)
    from Some p assms dedup_map_of_inactive[of b' "alerts m" r xs' k x] show ?thesis
      unfolding add_alert_def b'_def[symmetric] Let_def
      by (simp add: get_alert_def)
  qed
qed

lemma add_alert_again_unsuppressed:
  assumes "get_alert k m = Some x" "state x \<noteq> ACTIVE"
    "\<not> is_suppressed now (suppression_rules m) x"
  shows "get_alert k (snd (add_alert now x m)) = Some x"
proof (cases "dedup x (alerts m)")
  case None
  then show ?thesis
    using assms by (simp add: add_alert_def get_alert_def update_conv')
next
  case (Some p)
  obtain r xs' where p: "p = (r, xs')" by (cases p)
  from Some p assms dedup_map_of_inactive[of x "alerts m" r xs' k x] show ?thesis
    by (simp add: add_alert_def get_alert_def)
qed

lemma add_alerts_keeps_inactive:
  "get_alert k m = Some x \<Longrightarrow> state x \<noteq> ACTIVE \<Longrightarrow> \<forall>b \<in> set bs. alert_id b \<noteq> k
     \<Longrightarrow> get_alert k (snd (add_alerts now bs m)) = Some x"
proof (induction bs arbitrary: m)
  case Nil
  then show ?case by simp
next
  case (Cons b bs)
  have "get_alert k (snd (add_alert now b m)) = Some x"
    using Cons.prems by (simp add: add_alert_keeps_inactive)
  from Cons.IH[OF this] Cons.prems show ?case
    by (simp split: prod.splits) (metis snd_conv)
qed

text \<open>
  Claim C4 (amended). The alert state machine. \<^verbatim>\<open>acknowledge\<close> returns an alert
  exactly when the identifier is stored and its alert is active; the alert is then
  acknowledged, with \<^verbatim>\<open>acknowledged_at\<close> and \<^verbatim>\<open>acknowledged_by\<close> set.
  \<^verbatim>\<open>resolve\<close> returns an alert exactly when the stored alert is active or
  acknowledged; the alert is then resolved, with \<^verbatim>\<open>resolved_at\<close> set. On a resolved
  alert both operations return \<^verbatim>\<open>None\<close> and change nothing, and a resolved alert
  stored under a key is found unchanged under that key after \<^verbatim>\<open>acknowledge\<close>,
  \<^verbatim>\<open>resolve\<close> and \<^verbatim>\<open>add_suppression_rule\<close> with any arguments, after
  \<^verbatim>\<open>add_alert\<close> and \<^verbatim>\<open>add_alerts\<close> of alerts with another identifier, and after
  \<^verbatim>\<open>add_alert\<close> of the resolved alert itself when no suppression rule matches it. A
  second \<^verbatim>\<open>acknowledge\<close> of the same alert returns \<^verbatim>\<open>None\<close> and leaves the whole
  manager, so the alert's state and fields, as the first one left it.
\<close>

theorem alert_state_machine:
  "(fst (acknowledge now aid who m) \<noteq> None
      \<longleftrightarrow> (\<exists>a. get_alert aid m = Some a \<and> state a = ACTIVE))
   \<and> (get_alert aid m = Some a \<and> state a = ACTIVE
      \<longrightarrow> fst (acknowledge now aid who m) =
            Some (a\<lparr>state := ACKNOWLEDGED, acknowledged_at := Some now,
                    acknowledged_by := Some who\<rparr>)
          \<and> get_alert aid (snd (acknowledge now aid who m)) =
            Some (a\<lparr>state := ACKNOWLEDGED, acknowledged_at := Some now,
                    acknowledged_by := Some who\<rparr>))
   \<and> (fst (resolve now aid m) \<noteq> None
      \<longleftrightarrow> (\<exists>a. get_alert aid m = Some a \<and> (state a = ACTIVE \<or> state a = ACKNOWLEDGED)))
   \<and> (get_alert aid m = Some a \<and> (state a = ACTIVE \<or> state a = ACKNOWLEDGED)
      \<longrightarrow> fst (resolve now aid m) = Some (a\<lparr>state := RESOLVED, resolved_at := Some now\<rparr>)
          \<and> get_alert aid (snd (resolve now aid m)) =
            Some (a\<lparr>state := RESOLVED, resolved_at := Some now\<rparr>))
   \<and> (get_alert aid m = Some a \<and> state a = RESOLVED
      \<longrightarrow> acknowledge now aid who m = (None, m) \<and> resolve now aid m = (None, m))
   \<and> (get_alert k m = Some x \<and> state x = RESOLVED
      \<longrightarrow> get_alert k (snd (acknowledge now aid who m)) = Some x
          \<and> get_alert k (snd (resolve now aid m)) = Some x
          \<and> get_alert k (add_suppression_rule dev mt st en reason m) = Some x
          \<and> (alert_id b \<noteq> k \<or> b = x \<and> \<not> is_suppressed now (suppression_rules m) x
               \<longrightarrow> get_alert k (snd (add_alert now b m)) = Some x)
          \<and> ((\<forall>b \<in> set bs. alert_id b \<noteq> k)
               \<longrightarrow> get_alert k (snd (add_alerts now bs m)) = Some x))
   \<and> (get_alert aid m = Some a \<and> state a = ACTIVE
      \<longrightarrow> acknowledge now' aid who' (snd (acknowledge now aid who m)) =
            (None, snd (acknowledge now aid who m)))"
proof (intro conjI)
  show "fst (acknowledge now aid who m) \<noteq> None
      \<longleftrightarrow> (\<exists>a. get_alert aid m = Some a \<and> state a = ACTIVE)"
    unfolding get_alert_def by (rule acknowledge_succeeds_iff)
  show "get_alert aid m = Some a \<and> state a = ACTIVE
      \<longrightarrow> fst (acknowledge now aid who m) =
            Some (a\<lparr>state := ACKNOWLEDGED, acknowledged_at := Some now,
                    acknowledged_by := Some who\<rparr>)
          \<and> get_alert aid (snd (acknowledge now aid who m)) =
            Some (a\<lparr>state := ACKNOWLEDGED, acknowledged_at := Some now,
                    acknowledged_by := Some who\<rparr>)"
    by (simp add: acknowledge_def get_alert_def Let_def update_conv')
  show "fst (resolve now aid m) \<noteq> None
      \<longleftrightarrow> (\<exists>a. get_alert aid m = Some a \<and> (state a = ACTIVE \<or> state a = ACKNOWLEDGED))"
    unfolding get_alert_def by (rule resolve_succeeds_iff)
  show "get_alert aid m = Some a \<and> (state a = ACTIVE \<or> state a = ACKNOWLEDGED)
      \<longrightarrow> fst (resolve now aid m) = Some (a\<lparr>state := RESOLVED, resolved_at := Some now\<rparr>)
          \<and> get_alert aid (snd (resolve now aid m)) =
            Some (a\<lparr>state := RESOLVED, resolved_at := Some now\<rparr>)"
    by (auto simp add: resolve_def get_alert_def Let_def update_conv')
  show "get_alert aid m = Some a \<and> state a = RESOLVED
      \<longrightarrow> acknowledge now aid who m = (None, m) \<and> resolve now aid m = (None, m)"
    by (simp add: acknowledge_def resolve_def get_alert_def)
  show "get_alert k m = Some x \<and> state x = RESOLVED
      \<longrightarrow> get_alert k (snd (acknowledge now aid who m)) = Some x
          \<and> get_alert k (snd (resolve now aid m)) = Some x
          \<and> get_alert k (add_suppression_rule dev mt st en reason m) = Some x
          \<and> (alert_id b \<noteq> k \<or> b = x \<and> \<not> is_suppressed now (suppression_rules m) x
               \<longrightarrow> get_alert k (snd (add_alert now b m)) = Some x)
          \<and> ((\<forall>b \<in> set bs. alert_id b \<noteq> k)
               \<longrightarrow> get_alert k (snd (add_alerts now bs m)) = Some x)"
    using acknowledge_keeps_resolved[of k m x now aid who]
      resolve_keeps_resolved[of k m x now aid]
      add_alert_keeps_inactive[of k m x b now]
      add_alert_again_unsuppressed[of k m x now]
      add_alerts_keeps_inactive[of k m x bs now]
    by (auto simp: add_suppression_rule_def get_alert_def)
  show "get_alert aid m = Some a \<and> state a = ACTIVE
      \<longrightarrow> acknowledge now' aid who' (snd (acknowledge now aid who m)) =
            (None, snd (acknowledge now aid who m))"
  proof
    assume H: "get_alert aid m = Some a \<and> state a = ACTIVE"
    define m' where "m' = snd (acknowledge now aid who m)"
    have "map_of (alerts m') aid = Some (a\<lparr>state := ACKNOWLEDGED, acknowledged_at := Some now,
                    acknowledged_by := Some who\<rparr>)"
      using H by (simp add: m'_def acknowledge_def get_alert_def Let_def update_conv')
    then have "acknowledge now' aid who' m' = (None, m')"
      by (simp add: acknowledge_def)
    then show "acknowledge now' aid who' (snd (acknowledge now aid who m)) =
            (None, snd (acknowledge now aid who m))"
      by (simp add: m'_def)
  qed
qed

theorem alert_state_machine_witness:
  "get_alert ''a1'' one_active = Some (sample_alert ''a1'' CRITICAL 90)
   \<and> state (sample_alert ''a1'' CRITICAL 90) = ACTIVE
   \<and> fst (acknowledge 10 ''a1'' ''admin'' one_active) =
       Some ((sample_alert ''a1'' CRITICAL 90)\<lparr>state := ACKNOWLEDGED,
               acknowledged_at := Some 10, acknowledged_by := Some ''admin''\<rparr>)
   \<and> fst (resolve 10 ''a1'' one_active) =
       Some ((sample_alert ''a1'' CRITICAL 90)\<lparr>state := RESOLVED, resolved_at := Some 10\<rparr>)
   \<and> acknowledge 20 ''a1'' ''root'' (snd (acknowledge 10 ''a1'' ''admin'' one_active)) =
       (None, snd (acknowledge 10 ''a1'' ''admin'' one_active))
   \<and> state (the (get_alert ''a1'' one_resolved)) = RESOLVED
   \<and> acknowledge 20 ''a1'' ''root'' one_resolved = (None, one_resolved)
   \<and> resolve 20 ''a1'' one_resolved = (None, one_resolved)
   \<and> alert_id (sample_alert ''a2'' EMERGENCY 97) \<noteq> ''a1''
   \<and> get_alert ''a1'' (snd (add_alert 20 (sample_alert ''a2'' EMERGENCY 97) one_resolved)) =
       get_alert ''a1'' one_resolved
   \<and> get_alert ''a1'' (snd (add_alerts 20 [sample_alert ''a2'' EMERGENCY 97,
         sample_alert ''a3'' INFO 5] one_resolved)) = get_alert ''a1'' one_resolved"
proof -
  let ?a = "sample_alert ''a1'' CRITICAL 90"
  let ?r = "(sample_alert ''a1'' WARNING 75)\<lparr>state := RESOLVED, resolved_at := Some 7\<rparr>"
  let ?b = "sample_alert ''a2'' EMERGENCY 97"
  let ?bs = "[sample_alert ''a2'' EMERGENCY 97, sample_alert ''a3'' INFO 5]"
  have h1: "get_alert ''a1'' one_active = Some ?a \<and> state ?a = ACTIVE"
    by (simp add: get_alert_def one_active_def sample_alert_def)
  then have h1': "get_alert ''a1'' one_active = Some ?a
      \<and> (state ?a = ACTIVE \<or> state ?a = ACKNOWLEDGED)"
    by simp
  have h2: "get_alert ''a1'' one_resolved = Some ?r \<and> state ?r = RESOLVED"
    by (simp add: get_alert_def one_resolved_def resolved_sample_def)
  have h3: "alert_id ?b \<noteq> ''a1''" "\<forall>b \<in> set ?bs. alert_id b \<noteq> ''a1''"
    by (simp_all add: sample_alert_def)
  note active = alert_state_machine
      [where m = one_active and aid = "''a1''" and a = ?a and now = 10 and who = "''admin''"
         and now' = 20 and who' = "''root''"]
  note resolved = alert_state_machine
      [where m = one_resolved and aid = "''a1''" and a = ?r and now = 20 and who = "''root''"
         and k = "''a1''" and x = ?r and b = ?b and bs = ?bs]
  from active h1 h1' have c1:
    "fst (acknowledge 10 ''a1'' ''admin'' one_active) =
       Some (?a\<lparr>state := ACKNOWLEDGED, acknowledged_at := Some 10,
               acknowledged_by := Some ''admin''\<rparr>)"
    "fst (resolve 10 ''a1'' one_active) = Some (?a\<lparr>state := RESOLVED, resolved_at := Some 10\<rparr>)"
    "acknowledge 20 ''a1'' ''root'' (snd (acknowledge 10 ''a1'' ''admin'' one_active)) =
       (None, snd (acknowledge 10 ''a1'' ''admin'' one_active))"
    by blast+
  from resolved h2 h3 have c2:
    "acknowledge 20 ''a1'' ''root'' one_resolved = (None, one_resolved)"
    "resolve 20 ''a1'' one_resolved = (None, one_resolved)"
    "get_alert ''a1'' (snd (add_alert 20 ?b one_resolved)) = Some ?r"
    "get_alert ''a1'' (snd (add_alerts 20 ?bs one_resolved)) = Some ?r"
    by blast+
  show ?thesis using h1 h2 h3(1) c1 c2 by simp
qed

text \<open>
  Claim C4 as stated fails where it says that no operation of the manager changes the
  state of a resolved alert: \<^verbatim>\<open>add_alert\<close> marks its argument suppressed when a
  suppression rule matches, whatever the state of the argument. Adding the stored
  resolved alert again under such a rule leaves it stored as suppressed.
\<close>

theorem add_alert_again_counterexample:
  "get_alert ''a1'' one_resolved_suppressing = Some resolved_sample
   \<and> state resolved_sample = RESOLVED
   \<and> get_alert ''a1'' (snd (add_alert 50 resolved_sample one_resolved_suppressing)) =
       Some (resolved_sample\<lparr>state := SUPPRESSED\<rparr>)
   \<and> state (resolved_sample\<lparr>state := SUPPRESSED\<rparr>) \<noteq> RESOLVED"
  by (simp add: get_alert_def add_alert_def one_resolved_suppressing_def one_resolved_def
      add_suppression_rule_def resolved_sample_def
      sample_alert_def is_suppressed_def rule_matches_def is_duplicate_def Let_def)

section \<open>Properties of the health monitor\<close>

text \<open>
  Where the emergency threshold is absent or not zero, the chain of
  \<^verbatim>\<open>_check_threshold\<close> selects the first satisfied tier in the order emergency,
  critical, warning, and at most one alert is built, with that tier's severity and
  threshold value.
\<close>

lemma select_tier_first_satisfied:
  "emergency_threshold t \<noteq> Some 0 \<Longrightarrow> select_tier t v = first_satisfied_tier t v"
  by (auto simp: select_tier_def first_satisfied_tier_def split: option.splits)

lemma check_threshold_one_alert:
  "thresholds hm (m_metric_type m) = Some t \<Longrightarrow> emergency_threshold t \<noteq> Some 0 \<Longrightarrow>
     (case first_satisfied_tier t (m_value m) of
        None \<Rightarrow> check_threshold fstr uid now (thresholds hm) m = None
      | Some (sev, tv) \<Rightarrow>
          (\<exists>alert. check_threshold fstr uid now (thresholds hm) m = Some alert
             \<and> severity alert = sev \<and> threshold_value alert = Some tv
             \<and> metric_value alert = Some (m_value m) \<and> device_id alert = m_device_id m))"
  by (auto simp: check_threshold_def select_tier_first_satisfied split: option.splits)

lemma default_cpu_threshold:
  "thresholds (HealthMonitor_init None) CPU = Some (MetricThreshold_new CPU 70 85 (Some 95))"
  by (simp add: HealthMonitor_init_def DEFAULT_THRESHOLDS_def MetricThreshold_new_def)

text \<open>
  The CPU scenario: 90 against the default thresholds (warning 70, critical 85,
  emergency 95) gives exactly one alert, critical, with threshold value 85.
\<close>

lemma cpu_spike_critical:
  "\<exists>alert. process_metrics fstr uuid now [cpu_metric 90] (HealthMonitor_init None) =
       ([alert], snd (process_metrics fstr uuid now [cpu_metric 90] (HealthMonitor_init None)))
     \<and> severity alert = CRITICAL \<and> threshold_value alert = Some 85 \<and> device_id alert = ''d1''"
  by (simp add: process_metrics_def process_metric_def check_threshold_def select_tier_def
      HealthMonitor_init_def DEFAULT_THRESHOLDS_def MetricThreshold_new_def cpu_metric_def Let_def)

text \<open>
  Claim C2 (the code departs from it). The claim: the tiers are tested in the order
  emergency, critical, warning, each with \<open>\<ge>\<close>, and the first satisfied tier gives
  the severity and the threshold value of the one alert. With an emergency threshold of
  \<open>0.0\<close> the code skips the emergency tier, because it tests the threshold for truth
  before comparing: for the thresholds warning -10, critical -5, emergency 0 and the
  value 1, the emergency tier is satisfied, yet the alert is critical with threshold
  value -5.
\<close>

theorem check_threshold_zero_emergency:
  "emergency_threshold signal_threshold = Some 0
   \<and> m_value (signal_metric 1) \<ge> 0
   \<and> first_satisfied_tier signal_threshold (m_value (signal_metric 1)) = Some (EMERGENCY, 0)
   \<and> select_tier signal_threshold (m_value (signal_metric 1)) = Some (CRITICAL, - 5)
   \<and> (\<exists>alert.
        check_threshold fstr0 (uuid0 0) 0
          (thresholds (set_threshold signal_threshold (HealthMonitor_init None)))
          (signal_metric 1) = Some alert
        \<and> severity alert = CRITICAL \<and> threshold_value alert = Some (- 5))"
  by (simp add: check_threshold_def select_tier_def first_satisfied_tier_def set_threshold_def
      signal_threshold_def signal_metric_def MetricThreshold_new_def)












section \<open>Properties of the anomaly detector\<close>

lemma in_maintenance_iff:
  "in_maintenance now dev d \<longleftrightarrow>
     (\<exists>w \<in> set (maintenance_windows d). mw_start w \<le> now \<and> now \<le> mw_end w
        \<and> (mw_device_ids w = None \<or> (\<exists>ds. mw_device_ids w = Some ds \<and> dev \<in> set ds)))"
  by (auto simp: in_maintenance_def list_ex_iff is_active_def covers_device_def
      split: option.splits)

lemma in_maintenance_history [simp]:
  "in_maintenance now dev (d\<lparr>history := h\<rparr>) = in_maintenance now dev d"
  by (simp add: in_maintenance_def)

lemma detect_in_maintenance:
  assumes "in_maintenance now (m_device_id metric) d"
  shows "detect fstr f2 now metric methods d =
     Inr ([], d\<lparr>history := (history d)(series_key (m_device_id metric) (m_metric_type metric) :=
        (if length (history d (series_key (m_device_id metric) (m_metric_type metric))) + 1
              > ad_max_history d
         then last_n (ad_max_history d)
                (history d (series_key (m_device_id metric) (m_metric_type metric))
                   @ [m_value metric])
         else history d (series_key (m_device_id metric) (m_metric_type metric))
                @ [m_value metric]))\<rparr>)"
  using assms by (simp add: detect_def Let_def)

lemma last_last_n: "xs \<noteq> [] \<Longrightarrow> last (last_n n xs) = last xs"
  by (simp add: last_n_def last_drop)

lemma detect_batch_in_maintenance:
  "\<forall>m \<in> set ms. in_maintenance now (m_device_id m) d
       \<and> series_key (m_device_id m) (m_metric_type m) = k \<Longrightarrow>
   length (history d k) + length ms \<le> ad_max_history d \<Longrightarrow>
   detect_batch fstr f2 now ms d =
     Inr ([], d\<lparr>history := (history d)(k := history d k @ map m_value ms)\<rparr>)"
proof (induction ms arbitrary: d)
  case Nil
  then show ?case by simp
next
  case (Cons m ms)
  define d1 where "d1 = d\<lparr>history := (history d)(k := history d k @ [m_value m])\<rparr>"
  have first: "detect fstr f2 now m None d = Inr ([], d1)"
    using Cons.prems by (simp add: detect_in_maintenance d1_def)
  have rest: "detect_batch fstr f2 now ms d1 =
      Inr ([], d1\<lparr>history := (history d1)(k := history d1 k @ map m_value ms)\<rparr>)"
    using Cons.prems by (intro Cons.IH) (simp_all add: d1_def)
  have "d1\<lparr>history := (history d1)(k := history d1 k @ map m_value ms)\<rparr> =
      d\<lparr>history := (history d)(k := history d k @ map m_value (m # ms))\<rparr>"
    by (simp add: d1_def)
  with rest have "detect_batch fstr f2 now ms d1 =
      Inr ([], d\<lparr>history := (history d)(k := history d k @ map m_value (m # ms))\<rparr>)"
    by simp
  then show ?case by (simp only: detect_batch.simps first sum.case prod.case append_Nil)
qed

text \<open>
  Claim C3. When a maintenance window is active at the time of the call (its start is
  at most \<open>now\<close>, which is at most its end) and covers the metric's device (its device
  list is \<^verbatim>\<open>None\<close>, meaning all devices, or contains the device), \<^verbatim>\<open>detect\<close>
  returns the empty list and records no anomaly, and the metric's value has been
  appended to its series: it is the last element, and the series is the old one with
  the value at the end while the cap of \<^verbatim>\<open>_max_history\<close> samples is not reached.
  In particular, on a detector with such a window for device \<^verbatim>\<open>d1\<close> and an empty
  CPU series, any fifteen values followed by the value 200 give no result at all, and
  the series then holds these sixteen values.
\<close>

theorem detect_maintenance_window:
  "((\<exists>w \<in> set (maintenance_windows d). mw_start w \<le> now \<and> now \<le> mw_end w
        \<and> (mw_device_ids w = None
            \<or> (\<exists>ds. mw_device_ids w = Some ds \<and> m_device_id metric \<in> set ds)))
    \<longrightarrow> (\<exists>d'. detect fstr f2 now metric methods d = Inr ([], d')
          \<and> last (history d' (series_key (m_device_id metric) (m_metric_type metric))) =
              m_value metric
          \<and> (length (history d (series_key (m_device_id metric) (m_metric_type metric)))
                < ad_max_history d
             \<longrightarrow> history d' (series_key (m_device_id metric) (m_metric_type metric)) =
                  history d (series_key (m_device_id metric) (m_metric_type metric))
                    @ [m_value metric])
          \<and> (\<forall>k. k \<noteq> series_key (m_device_id metric) (m_metric_type metric)
                \<longrightarrow> history d' k = history d k)
          \<and> anomalies d' = anomalies d))
   \<and> ((\<exists>w \<in> set (maintenance_windows d0). mw_start w \<le> now \<and> now \<le> mw_end w
        \<and> (mw_device_ids w = None \<or> (\<exists>ds. mw_device_ids w = Some ds \<and> ''d1'' \<in> set ds)))
       \<and> history d0 (series_key ''d1'' CPU) = [] \<and> 16 \<le> ad_max_history d0
       \<and> length vs = 15
    \<longrightarrow> (\<exists>d'. detect_batch fstr f2 now (map cpu_metric (vs @ [200])) d0 = Inr ([], d')
          \<and> history d' (series_key ''d1'' CPU) = vs @ [200]
          \<and> length (history d' (series_key ''d1'' CPU)) = 16))"
proof (intro conjI impI)
  assume "\<exists>w \<in> set (maintenance_windows d). mw_start w \<le> now \<and> now \<le> mw_end w
        \<and> (mw_device_ids w = None
            \<or> (\<exists>ds. mw_device_ids w = Some ds \<and> m_device_id metric \<in> set ds))"
  then have "in_maintenance now (m_device_id metric) d"
    by (simp add: in_maintenance_iff)
  from detect_in_maintenance[OF this, where fstr = fstr and ?f2.0 = f2 and methods = methods]
  show "\<exists>d'. detect fstr f2 now metric methods d = Inr ([], d')
          \<and> last (history d' (series_key (m_device_id metric) (m_metric_type metric))) =
              m_value metric
          \<and> (length (history d (series_key (m_device_id metric) (m_metric_type metric)))
                < ad_max_history d
             \<longrightarrow> history d' (series_key (m_device_id metric) (m_metric_type metric)) =
                  history d (series_key (m_device_id metric) (m_metric_type metric))
                    @ [m_value metric])
          \<and> (\<forall>k. k \<noteq> series_key (m_device_id metric) (m_metric_type metric)
                \<longrightarrow> history d' k = history d k)
          \<and> anomalies d' = anomalies d"
    by (simp add: last_last_n)
next
  assume H: "(\<exists>w \<in> set (maintenance_windows d0). mw_start w \<le> now \<and> now \<le> mw_end w
        \<and> (mw_device_ids w = None \<or> (\<exists>ds. mw_device_ids w = Some ds \<and> ''d1'' \<in> set ds)))
       \<and> history d0 (series_key ''d1'' CPU) = [] \<and> 16 \<le> ad_max_history d0
       \<and> length vs = 15"
  then have m: "in_maintenance now ''d1'' d0"
    by (simp add: in_maintenance_iff)
  have "detect_batch fstr f2 now (map cpu_metric (vs @ [200])) d0 =
      Inr ([], d0\<lparr>history := (history d0)(series_key ''d1'' CPU :=
         history d0 (series_key ''d1'' CPU) @ map m_value (map cpu_metric (vs @ [200])))\<rparr>)"
    using H m by (intro detect_batch_in_maintenance) (auto simp: cpu_metric_def)
  moreover have "map m_value (map cpu_metric (vs @ [200])) = vs @ [200]"
    by (simp add: cpu_metric_def comp_def)
  ultimately show "\<exists>d'. detect_batch fstr f2 now (map cpu_metric (vs @ [200])) d0 = Inr ([], d')
          \<and> history d' (series_key ''d1'' CPU) = vs @ [200]
          \<and> length (history d' (series_key ''d1'' CPU)) = 16"
    using H by simp
qed

theorem detect_maintenance_window_witness:
  "in_maintenance 7200000000 (m_device_id (cpu_metric 200)) (maintained_detector 7200000000)
   \<and> fst (projr (detect fstr0 fstr0 7200000000 (cpu_metric 200) None
              (maintained_detector 7200000000))) = []
   \<and> fst (projr (detect_batch fstr0 fstr0 7200000000
              (map cpu_metric (replicate 15 50 @ [200])) (maintained_detector 7200000000))) = []
   \<and> length (history (snd (projr (detect_batch fstr0 fstr0 7200000000
              (map cpu_metric (replicate 15 50 @ [200])) (maintained_detector 7200000000))))
          (series_key ''d1'' CPU)) = 16"
proof -
  let ?now = "7200000000 :: int"
  let ?d = "maintained_detector ?now"
  have w: "\<exists>w \<in> set (maintenance_windows ?d). mw_start w \<le> ?now \<and> ?now \<le> mw_end w
        \<and> (mw_device_ids w = None \<or> (\<exists>ds. mw_device_ids w = Some ds \<and> ''d1'' \<in> set ds))"
    by (simp add: maintained_detector_def add_maintenance_window_def hour_def
        AnomalyDetector_default_def AnomalyDetector_init_def)
  then have h1: "\<exists>w \<in> set (maintenance_windows ?d). mw_start w \<le> ?now \<and> ?now \<le> mw_end w
        \<and> (mw_device_ids w = None
            \<or> (\<exists>ds. mw_device_ids w = Some ds \<and> m_device_id (cpu_metric 200) \<in> set ds))"
    by (simp add: cpu_metric_def)
  have h2: "history ?d (series_key ''d1'' CPU) = [] \<and> 16 \<le> ad_max_history ?d
       \<and> length (replicate 15 (50::real)) = 15"
    by (simp add: maintained_detector_def add_maintenance_window_def
        AnomalyDetector_default_def AnomalyDetector_init_def)
  note single = detect_maintenance_window
      [where d = ?d and now = ?now and metric = "cpu_metric 200" and fstr = fstr0 and ?f2.0 = fstr0
         and methods = None]
  note batch = detect_maintenance_window
      [where ?d0.0 = ?d and now = ?now and vs = "replicate 15 50" and fstr = fstr0 and ?f2.0 = fstr0]
  from single h1 obtain d1 where
    c1: "detect fstr0 fstr0 ?now (cpu_metric 200) None ?d = Inr ([], d1)"
    by blast
  from batch w h2 obtain d2 where
    c2: "detect_batch fstr0 fstr0 ?now (map cpu_metric (replicate 15 50 @ [200])) ?d = Inr ([], d2)"
        "length (history d2 (series_key ''d1'' CPU)) = 16"
    by blast
  have m: "in_maintenance ?now (m_device_id (cpu_metric 200)) ?d"
    using h1 by (simp add: in_maintenance_iff)
  show ?thesis using m c1 c2 by simp
qed










section \<open>Properties of the configuration manager\<close>

lemma backup_config_latest:
  "snapshots (snd (backup_config sha256 uid now dev ctext src hostname cm)) dev \<noteq> []
   \<and> last (snapshots (snd (backup_config sha256 uid now dev ctext src hostname cm)) dev) =
       fst (backup_config sha256 uid now dev ctext src hostname cm)
   \<and> config_hash (fst (backup_config sha256 uid now dev ctext src hostname cm)) = sha256 ctext"
  by (simp add: backup_config_def Let_def)

text \<open>
  Claim C5 (amended). For every device and configuration text, whatever the store holds:
  a \<^verbatim>\<open>backup_config\<close> of the same text that directly follows the first returns the
  very snapshot that the first call returned, so the same identifier, and leaves the
  store as the first call left it, so no snapshot is created. In general the decision
  compares the hash of the text (the function \<open>sha256\<close>) with the hash stored in the
  device's latest snapshot: when they are equal the latest snapshot is returned and
  nothing changes, otherwise a snapshot with a new identifier, this text and its hash
  is appended.
\<close>

theorem backup_config_idempotent:
  "backup_config sha256 uid2 now2 dev ctext src2 host2
       (snd (backup_config sha256 uid1 now1 dev ctext src1 host1 cm)) =
     (fst (backup_config sha256 uid1 now1 dev ctext src1 host1 cm),
      snd (backup_config sha256 uid1 now1 dev ctext src1 host1 cm))
   \<and> snapshot_id (fst (backup_config sha256 uid2 now2 dev ctext src2 host2
         (snd (backup_config sha256 uid1 now1 dev ctext src1 host1 cm)))) =
       snapshot_id (fst (backup_config sha256 uid1 now1 dev ctext src1 host1 cm))
   \<and> (snapshots cm dev \<noteq> [] \<and> config_hash (last (snapshots cm dev)) = sha256 ctext
        \<longrightarrow> backup_config sha256 uid1 now1 dev ctext src1 host1 cm =
              (last (snapshots cm dev), cm))
   \<and> (\<not> (snapshots cm dev \<noteq> [] \<and> config_hash (last (snapshots cm dev)) = sha256 ctext)
        \<longrightarrow> snapshot_id (fst (backup_config sha256 uid1 now1 dev ctext src1 host1 cm)) = uid1
            \<and> config_text (fst (backup_config sha256 uid1 now1 dev ctext src1 host1 cm)) = ctext
            \<and> config_hash (fst (backup_config sha256 uid1 now1 dev ctext src1 host1 cm)) =
                sha256 ctext
            \<and> snapshots (snd (backup_config sha256 uid1 now1 dev ctext src1 host1 cm)) dev =
                snapshots cm dev @ [fst (backup_config sha256 uid1 now1 dev ctext src1 host1 cm)])"
proof -
  define r where "r = backup_config sha256 uid1 now1 dev ctext src1 host1 cm"
  have l: "snapshots (snd r) dev \<noteq> []" "last (snapshots (snd r) dev) = fst r"
    "config_hash (fst r) = sha256 ctext"
    using backup_config_latest[of sha256 uid1 now1 dev ctext src1 host1 cm]
    by (simp_all add: r_def)
  have second: "backup_config sha256 uid2 now2 dev ctext src2 host2 (snd r) = (fst r, snd r)"
    using l by (simp add: backup_config_def)
  show ?thesis
    unfolding r_def[symmetric]
    using second by (simp add: r_def backup_config_def Let_def)
qed

theorem backup_config_idempotent_witness:
  "snapshots ConfigManager_init ''d1'' = []
   \<and> snapshot_id (fst (backup_config hash0 ''s1'' 1 ''d1'' ''hostname r1'' ''manual'' ''''
        ConfigManager_init)) = ''s1''
   \<and> snapshot_id (fst (backup_config hash0 ''s2'' 2 ''d1'' ''hostname r1'' ''manual'' ''''
        (snd (backup_config hash0 ''s1'' 1 ''d1'' ''hostname r1'' ''manual'' ''''
           ConfigManager_init)))) = ''s1''
   \<and> length (snapshots (snd (backup_config hash0 ''s2'' 2 ''d1'' ''hostname r1'' ''manual'' ''''
        (snd (backup_config hash0 ''s1'' 1 ''d1'' ''hostname r1'' ''manual'' ''''
           ConfigManager_init)))) ''d1'') = 1"
proof -
  let ?first = "backup_config hash0 ''s1'' 1 ''d1'' ''hostname r1'' ''manual'' '''' ConfigManager_init"
  have h: "\<not> (snapshots ConfigManager_init ''d1'' \<noteq> []
       \<and> config_hash (last (snapshots ConfigManager_init ''d1'')) = hash0 ''hostname r1'')"
    by (simp add: ConfigManager_init_def)
  note inst = backup_config_idempotent
      [where ?sha256.0 = hash0 and ?uid1.0 = "''s1''" and ?now1.0 = 1 and dev = "''d1''"
         and ctext = "''hostname r1''" and ?src1.0 = "''manual''" and ?host1.0 = "''''"
         and cm = ConfigManager_init and ?uid2.0 = "''s2''" and ?now2.0 = 2
         and ?src2.0 = "''manual''" and ?host2.0 = "''''"]
  from inst h have c: "snapshot_id (fst ?first) = ''s1''"
    "snapshots (snd ?first) ''d1'' = snapshots ConfigManager_init ''d1'' @ [fst ?first]"
    "backup_config hash0 ''s2'' 2 ''d1'' ''hostname r1'' ''manual'' '''' (snd ?first) =
       (fst ?first, snd ?first)"
    by blast+
  show ?thesis using c by (simp add: ConfigManager_init_def)
qed

text \<open>
  A backup of a text with another hash in between makes the next backup of the first
  text a new snapshot: only the latest snapshot is compared.
\<close>

lemma backup_config_after_change:
  assumes "sha256 t \<noteq> sha256 t'"
  shows "snapshot_id (fst (backup_config sha256 uid3 now3 dev t src3 host3
           (snd (backup_config sha256 uid2 now2 dev t' src2 host2
             (snd (backup_config sha256 uid1 now1 dev t src1 host1 cm)))))) = uid3"
proof -
  define cm2 where "cm2 = snd (backup_config sha256 uid2 now2 dev t' src2 host2
             (snd (backup_config sha256 uid1 now1 dev t src1 host1 cm)))"
  have "config_hash (last (snapshots cm2 dev)) = sha256 t'"
    using backup_config_latest[of sha256 uid2 now2 dev t' src2 host2
        "snd (backup_config sha256 uid1 now1 dev t src1 host1 cm)"]
    by (simp add: cm2_def)
  then have "snapshot_id (fst (backup_config sha256 uid3 now3 dev t src3 host3 cm2)) = uid3"
    using assms by (simp add: backup_config_def Let_def)
  then show ?thesis by (simp add: cm2_def)
qed

text \<open>
  Claim C5 as stated fails for two calls with the same text that have a backup of
  another text between them: the second creates a third snapshot, with an identifier of
  its own.
\<close>

theorem backup_config_after_change_counterexample:
  "config_text (fst first_backup) = ''hostname r1''
   \<and> snapshot_id (fst first_backup) = ''s1''
   \<and> snapshot_id (fst (backup_config hash0 ''s3'' 3 ''d1'' ''hostname r1'' ''manual'' ''''
        after_change)) = ''s3''
   \<and> length (snapshots (snd (backup_config hash0 ''s3'' 3 ''d1'' ''hostname r1'' ''manual'' ''''
        after_change)) ''d1'') = 3
   \<and> snapshot_id (fst (backup_config hash0 ''s3'' 3 ''d1'' ''hostname r1'' ''manual'' ''''
        after_change)) \<noteq> snapshot_id (fst first_backup)"
  by (simp add: first_backup_def after_change_def backup_config_def ConfigManager_init_def
      hash0_def Let_def)

section \<open>Properties of the topology\<close>

lemma within_hops_0: "within_hops adj src 0 = {src}"
  by (auto simp: within_hops_def intro: hops.start elim: hops.cases)

lemma within_hops_Suc:
  "within_hops adj src (Suc k) = within_hops adj src k \<union> (\<Union>u \<in> within_hops adj src k. adj u)"
proof (intro set_eqI iffI)
  fix v assume "v \<in> within_hops adj src (Suc k)"
  then obtain n where n: "n \<le> Suc k" "hops adj src n v" by (auto simp: within_hops_def)
  from n(2) show "v \<in> within_hops adj src k \<union> (\<Union>u \<in> within_hops adj src k. adj u)"
  proof cases
    case start
    then show ?thesis by (auto simp: within_hops_def intro: hops.start)
  next
    case (step m u)
    with n(1) have "u \<in> within_hops adj src k" by (auto simp: within_hops_def)
    with step show ?thesis by auto
  qed
next
  fix v assume "v \<in> within_hops adj src k \<union> (\<Union>u \<in> within_hops adj src k. adj u)"
  then show "v \<in> within_hops adj src (Suc k)"
  proof
    assume "v \<in> within_hops adj src k"
    then show ?thesis by (auto simp: within_hops_def intro: le_SucI)
  next
    assume "v \<in> (\<Union>u \<in> within_hops adj src k. adj u)"
    then obtain u n where "n \<le> k" "hops adj src n u" "v \<in> adj u"
      by (auto simp: within_hops_def)
    then have "Suc n \<le> Suc k" "hops adj src (Suc n) v" by (auto intro: hops.step)
    then show ?thesis unfolding within_hops_def by blast
  qed
qed

lemma src_within_hops: "src \<in> within_hops adj src k"
  by (auto simp: within_hops_def intro: hops.start)

lemma blast_layers_within_hops:
  "affected = within_hops adj dev i - {dev} \<Longrightarrow> layer \<subseteq> within_hops adj dev i \<Longrightarrow>
   (\<forall>u \<in> within_hops adj dev i - layer. adj u \<subseteq> within_hops adj dev i) \<Longrightarrow>
   blast_layers adj dev n affected layer = within_hops adj dev (i + n) - {dev}"
proof (induction n arbitrary: i affected layer)
  case 0
  then show ?case by simp
next
  case (Suc n)
  let ?R = "within_hops adj dev i"
  define next_layer where "next_layer = (\<Union>d \<in> layer. adj d) - affected - {dev}"
  have nl: "next_layer = (\<Union>d \<in> layer. adj d) - ?R"
    using Suc.prems(1) src_within_hops[of dev adj i] by (auto simp: next_layer_def)
  have cover: "(\<Union>u \<in> ?R. adj u) \<subseteq> ?R \<union> (\<Union>d \<in> layer. adj d)"
    using Suc.prems(3) by blast
  have R': "within_hops adj dev (Suc i) = ?R \<union> next_layer"
    using cover Suc.prems(2) unfolding within_hops_Suc nl by blast
  have a: "affected \<union> next_layer = within_hops adj dev (Suc i) - {dev}"
    using Suc.prems(1) R' by (auto simp: next_layer_def)
  have b: "next_layer \<subseteq> within_hops adj dev (Suc i)"
    using R' by simp
  have c: "\<forall>u \<in> within_hops adj dev (Suc i) - next_layer. adj u \<subseteq> within_hops adj dev (Suc i)"
    using R' by (auto simp: within_hops_Suc)
  have "blast_layers adj dev n (affected \<union> next_layer) next_layer =
      within_hops adj dev (Suc i + n) - {dev}"
    by (rule Suc.IH[OF a b c])
  then show ?case by (simp add: next_layer_def Let_def)
qed

lemma get_blast_radius_within_hops:
  "get_blast_radius dev max_hops t = within_hops (adjacency t) dev (nat max_hops) - {dev}"
  using blast_layers_within_hops[of "{}" "adjacency t" dev 0 "{dev}" "nat max_hops"]
  by (simp add: get_blast_radius_def within_hops_0)

lemma get_blast_radius_1: "get_blast_radius dev 1 t = adjacency t dev - {dev}"
  by (simp add: get_blast_radius_def Let_def)

text \<open>
  Claim C8 (amended). \<^verbatim>\<open>get_blast_radius(d, max_hops)\<close> is exactly the set of the
  devices reachable from \<open>d\<close> within \<^verbatim>\<open>max_hops\<close> hops of the adjacency, without
  \<open>d\<close> itself. For \<^verbatim>\<open>max_hops = 1\<close> it is the neighbor set of \<open>d\<close> minus \<open>d\<close>:
  its cardinality is the degree of \<open>d\<close> (the size of its neighbor set) when \<open>d\<close> is
  not its own neighbor, and one less when it is.
\<close>

theorem get_blast_radius_exact:
  "get_blast_radius dev max_hops t = within_hops (adjacency t) dev (nat max_hops) - {dev}
   \<and> get_blast_radius dev 1 t = get_neighbors dev t - {dev}
   \<and> (dev \<notin> get_neighbors dev t
        \<longrightarrow> card (get_blast_radius dev 1 t) = card (get_neighbors dev t))
   \<and> (dev \<in> get_neighbors dev t \<and> finite (get_neighbors dev t)
        \<longrightarrow> card (get_blast_radius dev 1 t) = card (get_neighbors dev t) - 1)"
  by (simp add: get_blast_radius_within_hops[of dev max_hops t] get_blast_radius_1
      get_neighbors_def)

lemma star_neighbors: "get_neighbors ''core'' star_topology = {''dist1'', ''dist2''}"
  by (auto simp: star_topology_def add_neighbor_def link_def TopologyDiscovery_init_def
      get_neighbors_def Let_def)

lemma loop_neighbors: "get_neighbors ''core'' loop_topology = {''core''}"
  by (auto simp: loop_topology_def add_neighbor_def link_def TopologyDiscovery_init_def
      get_neighbors_def Let_def)

theorem get_blast_radius_exact_witness:
  "''core'' \<notin> get_neighbors ''core'' star_topology
   \<and> card (get_neighbors ''core'' star_topology) = 2
   \<and> card (get_blast_radius ''core'' 1 star_topology) = 2
   \<and> ''core'' \<in> get_neighbors ''core'' loop_topology
   \<and> finite (get_neighbors ''core'' loop_topology)
   \<and> card (get_blast_radius ''core'' 1 loop_topology) = 0"
proof -
  have h: "''core'' \<notin> get_neighbors ''core'' star_topology"
    by (simp add: star_neighbors)
  have k: "card (get_neighbors ''core'' star_topology) = 2"
    by (simp add: star_neighbors)
  have l: "''core'' \<in> get_neighbors ''core'' loop_topology \<and> finite (get_neighbors ''core'' loop_topology)"
    by (simp add: loop_neighbors)
  from get_blast_radius_exact[of "''core''" 1 star_topology] h
  have c1: "card (get_blast_radius ''core'' 1 star_topology) = card (get_neighbors ''core'' star_topology)"
    by blast
  from get_blast_radius_exact[of "''core''" 1 loop_topology] l
  have c2: "card (get_blast_radius ''core'' 1 loop_topology) = card (get_neighbors ''core'' loop_topology) - 1"
    by blast
  show ?thesis using h k l c1 c2 by (simp add: loop_neighbors)
qed

text \<open>
  Claim C8 as stated fails for a device that is its own neighbor: after
  \<^verbatim>\<open>add_neighbor\<close> of a relation from \<^verbatim>\<open>core\<close> to \<^verbatim>\<open>core\<close> the degree is 1
  and the blast radius for one hop is empty.
\<close>

theorem blast_radius_self_neighbor_counterexample:
  "card (get_neighbors ''core'' loop_topology) = 1
   \<and> card (get_blast_radius ''core'' 1 loop_topology) = 0
   \<and> card (get_blast_radius ''core'' 1 loop_topology) \<noteq> card (get_neighbors ''core'' loop_topology)"
  by (simp add: get_blast_radius_1 loop_neighbors get_neighbors_def[symmetric])

section \<open>Properties of the forecast agent\<close>

lemma range10:
  "map real [0..<length [10, 12, 14, 16, 18, 20, 22, 24, 26, 28 :: real]] =
     [0, 1, 2, 3, 4, 5, 6, 7, 8, 9]"
  by (simp add: upt_rec)

lemma regression_growth:
  "linear_regression [0, 1, 2, 3, 4, 5, 6, 7, 8, 9] [10, 12, 14, 16, 18, 20, 22, 24, 26, 28] =
     (2, 10)"
  by (simp add: linear_regression_def Let_def power2_eq_square)

lemma confidence_growth:
  "calculate_confidence [0, 1, 2, 3, 4, 5, 6, 7, 8, 9]
     [10, 12, 14, 16, 18, 20, 22, 24, 26, 28] 2 10 = 1"
  by (simp add: calculate_confidence_def mean_def Let_def power2_eq_square py_round_def
      round_half_even_def)

text \<open>
  The forecast scenario: on the values 10, 12, ..., 28 with threshold 50 and 60 seconds
  per interval the slope is 2, the breach is predicted \<open>(50 - 28) / 2 = 11\<close> intervals
  or 660 seconds ahead, reported as 0.2 hours, with confidence 1.
\<close>

lemma forecast_linear_growth:
  "predict_threshold_breach fstr0 some_now [10, 12, 14, 16, 18, 20, 22, 24, 26, 28] 50 60 =
     Inr (BreachPredicted 28 50 2 (some_now + 660 * 1000000) (2 / 10) 1
            (''Threshold of '' @ fstr0 50 @ '' predicted to be reached in '' @ fstr0 (2 / 10)
               @ '' hours''))"
  unfolding predict_threshold_breach_def Let_def range10 regression_growth
  by (simp add: round_half_even_def py_round_def confidence_growth some_now_def
      datetime_max_def)

text \<open>
  In general, with a positive slope \<open>m\<close> the call reports a predicted breach unless
  the date overflows; the reported hours are \<open>(threshold - latest) / m\<close> intervals in
  hours, rounded to one decimal, and they agree with the clipped value of the claim
  whenever the latest value has not passed the threshold.
\<close>

lemma predict_breach_fields:
  assumes "3 \<le> length vals"
    and "linear_regression (map real [0..<length vals]) vals = (m, b)"
    and "0 < m"
    and "predict_threshold_breach fstr now vals threshold iv = Inr f"
  shows "\<exists>msg. f = BreachPredicted (py_round (last vals) 2) threshold (py_round m 6)
            (now + round_half_even
               (max 0 ((threshold - last vals) / m * real_of_int iv) * 1000000))
            (py_round ((threshold - last vals) / m * real_of_int iv / 3600) 1)
            (calculate_confidence (map real [0..<length vals]) vals m b) msg"
  using assms by (auto simp: predict_threshold_breach_def Let_def split: if_splits)

lemma predict_breach_hours_unclipped:
  assumes "3 \<le> length vals"
    and "linear_regression (map real [0..<length vals]) vals = (m, b)"
    and "0 < m" and "last vals \<le> threshold"
    and "predict_threshold_breach fstr now vals threshold iv = Inr f"
  shows "bp_time_to_breach_hours f =
           py_round (clipped_hours_to_breach threshold (last vals) m iv) 1"
proof -
  from predict_breach_fields[OF assms(1,2,3,5)] obtain msg where
    f: "f = BreachPredicted (py_round (last vals) 2) threshold (py_round m 6)
            (now + round_half_even
               (max 0 ((threshold - last vals) / m * real_of_int iv) * 1000000))
            (py_round ((threshold - last vals) / m * real_of_int iv / 3600) 1)
            (calculate_confidence (map real [0..<length vals]) vals m b) msg"
    by blast
  have "0 \<le> (threshold - last vals) / m" using assms(3,4) by simp
  then have "max 0 ((threshold - last vals) / m) = (threshold - last vals) / m" by simp
  then show ?thesis by (simp add: f clipped_hours_to_breach_def)
qed

lemma range3: "map real [0..<length [a, b, c :: real]] = [0, 1, 2]"
  by (simp add: upt_rec)

lemma regression_rising: "linear_regression [0, 1, 2] [100, 101, 102] = (1, 100)"
  by (simp add: linear_regression_def Let_def power2_eq_square)

lemma confidence_rising: "calculate_confidence [0, 1, 2] [100, 101, 102] 1 100 = 1"
  by (simp add: calculate_confidence_def mean_def Let_def power2_eq_square py_round_def
      round_half_even_def)

text \<open>
  Claim C7 (the code departs from it). The claim: with a positive slope \<open>m\<close> the
  reported time to breach is \<open>(threshold - latest) / m\<close> intervals, clipped at zero,
  in hours. The code clips only the estimated breach time
  (\<^verbatim>\<open>max(0, seconds_to_breach)\<close>); \<^verbatim>\<open>time_to_breach_hours\<close> is computed from the
  unclipped seconds. On the values 100, 101, 102 with threshold 42 and the default 60
  seconds per interval the slope is 1, the breach time is the present, and the reported
  time to breach is -1 hour where the clipped value is 0.
\<close>

theorem predict_threshold_breach_negative_hours:
  "linear_regression (map real [0..<length [100, 101, 102 :: real]]) [100, 101, 102] = (1, 100)
   \<and> predict_threshold_breach fstr0 some_now [100, 101, 102] 42 60 =
       Inr (BreachPredicted 102 42 1 some_now (- 1) 1
              (''Threshold of '' @ fstr0 42 @ '' predicted to be reached in '' @ fstr0 (- 1)
                 @ '' hours''))
   \<and> clipped_hours_to_breach 42 102 1 60 = 0"
proof (intro conjI)
  show "linear_regression (map real [0..<length [100, 101, 102 :: real]]) [100, 101, 102] =
      (1, 100)"
    by (simp only: range3 regression_rising)
  show "predict_threshold_breach fstr0 some_now [100, 101, 102] 42 60 =
       Inr (BreachPredicted 102 42 1 some_now (- 1) 1
              (''Threshold of '' @ fstr0 42 @ '' predicted to be reached in '' @ fstr0 (- 1)
                 @ '' hours''))"
    unfolding predict_threshold_breach_def Let_def range3 regression_rising
    by (simp add: round_half_even_def py_round_def confidence_rising some_now_def
        datetime_max_def)
  show "clipped_hours_to_breach 42 102 1 60 = 0"
    by (simp add: clipped_hours_to_breach_def)
qed

end
